theory Spec2Isabelle
  imports Main
begin

section \<open>The syntax tree\<close>

text \<open>
  The part of the TypeScript syntax tree that the transformer reads and builds. Nodes
  that the transformer never inspects (hand-written expressions, other statements, other
  class elements, type parameters, the types of heritage clauses) carry an opaque tag.
\<close>

datatype keywordType = StringKeyword | BooleanKeyword | NumberKeyword | VoidKeyword

datatype typeNode =
    KeywordTypeNode keywordType
  | TypeReferenceNode string
  | UnionTypeNode "typeNode list"
  | LiteralNullTypeNode
  | OtherTypeNode nat

datatype binaryOperator =
    EqualsToken
  | EqualsEqualsToken
  | EqualsEqualsEqualsToken
  | AsteriskToken
  | PlusToken
  | BarToken
  | AmpersandAmpersandToken
  | InstanceOfKeyword

datatype expression =
    Identifier string
  | This
  | NullLiteral
  | TrueLiteral
  | FalseLiteral
  | NumericLiteral nat
  | StringLiteral string
  | PropertyAccessExpression expression string
  | BinaryExpression expression binaryOperator expression
  | PrefixUnaryExclamation expression
  | ParenthesizedExpression expression
  | TypeOfExpression expression
  | ConditionalExpression expression expression expression
  | CallExpression expression "expression list"
  | NewExpression string "expression list"
  | NoSubstitutionTemplateLiteral string
  | TemplateExpression string "(expression \<times> string) list"
  | OtherExpression nat

datatype modifierKind =
    StaticKeyword
  | ReadonlyKeyword
  | PrivateKeyword
  | ProtectedKeyword
  | PublicKeyword
  | ExportKeyword
  | DefaultKeyword
  | OtherModifier nat

datatype modifierLike = Decorator expression | Modifier modifierKind

datatype propertyName = IdentifierName string | OtherName nat

datatype heritageClause = ExtendsClause nat | ImplementsClause nat

datatype parameterDeclaration =
  ParameterDeclaration (param_name: string) (param_type: "typeNode option")

datatype statement =
    IfStatement expression statement
  | Block "statement list"
  | ThrowStatement expression
  | ExpressionStatement expression
  | ReturnStatement expression
  | ClassStatement classDeclaration
  | OtherStatement nat "statement list"
and classDeclaration =
  ClassDeclaration
    (class_modifiers: "modifierLike list")
    (class_name: "string option")
    (class_typeParameters: "nat list")
    (class_heritageClauses: "heritageClause list")
    (class_members: "classElement list")
and classElement =
    PropertyDeclaration "modifierLike list" propertyName bool "typeNode option"
      "expression option"
  | ConstructorDeclaration "modifierLike list" "parameterDeclaration list" "statement list"
  | MethodDeclaration "modifierLike list" propertyName "parameterDeclaration list"
      "typeNode option" "statement list"
  | OtherClassElement nat "statement list"

fun isPropertyDeclaration :: "classElement \<Rightarrow> bool" where
  "isPropertyDeclaration (PropertyDeclaration _ _ _ _ _) = True"
| "isPropertyDeclaration _ = False"

fun isConstructorDeclaration :: "classElement \<Rightarrow> bool" where
  "isConstructorDeclaration (ConstructorDeclaration _ _ _) = True"
| "isConstructorDeclaration _ = False"

fun isMethodDeclaration :: "classElement \<Rightarrow> bool" where
  "isMethodDeclaration (MethodDeclaration _ _ _ _ _) = True"
| "isMethodDeclaration _ = False"

text \<open>\<open>ts.getDecorators\<close> and \<open>ts.getModifiers\<close> split a node's modifier list.\<close>

fun isDecorator :: "modifierLike \<Rightarrow> bool" where
  "isDecorator (Decorator _) = True"
| "isDecorator (Modifier _) = False"

definition getDecoratorsOf :: "modifierLike list \<Rightarrow> modifierLike list" where
  "getDecoratorsOf ms = filter isDecorator ms"

definition getModifiersOf :: "modifierLike list \<Rightarrow> modifierLike list" where
  "getModifiersOf ms = filter (\<lambda>m. \<not> isDecorator m) ms"

definition hasModifierKind :: "modifierKind \<Rightarrow> modifierLike list \<Rightarrow> bool" where
  "hasModifierKind k ms = list_ex (\<lambda>m. m = Modifier k) ms"

section \<open>decorator-utils\<close>

definition KNOWN_CLASS_DECORATORS :: "string list" where
  "KNOWN_CLASS_DECORATORS =
     [''Record'', ''Value'', ''Equals'', ''With'',
      ''Getter'', ''Setter'', ''ToString'', ''Data'', ''Builder'',
      ''NoArgsConstructor'', ''AllArgsConstructor'', ''RequiredArgsConstructor'',
      ''Log'', ''Singleton'']"

definition KNOWN_PROPERTY_DECORATORS :: "string list" where
  "KNOWN_PROPERTY_DECORATORS = [''NonNull'', ''Getter'', ''Setter'']"

definition KNOWN_METHOD_DECORATORS :: "string list" where
  "KNOWN_METHOD_DECORATORS = [''Memoize'', ''Autobind'']"

fun getDecoratorName :: "modifierLike \<Rightarrow> string option" where
  "getDecoratorName (Decorator (Identifier n)) = Some n"
| "getDecoratorName (Decorator (CallExpression (Identifier n) _)) = Some n"
| "getDecoratorName _ = None"

definition isKnownDecorator :: "modifierLike \<Rightarrow> bool" where
  "isKnownDecorator d =
     (case getDecoratorName d of
        None \<Rightarrow> False
      | Some n \<Rightarrow> List.member KNOWN_CLASS_DECORATORS n)"

definition isKnownPropertyDecorator :: "modifierLike \<Rightarrow> bool" where
  "isKnownPropertyDecorator d =
     (case getDecoratorName d of
        None \<Rightarrow> False
      | Some n \<Rightarrow> List.member KNOWN_PROPERTY_DECORATORS n)"

text \<open>The names of a list of decorators, those without a name dropped.\<close>

definition decoratorNames :: "modifierLike list \<Rightarrow> string list" where
  "decoratorNames ds = List.map_filter getDecoratorName ds"

definition getKnownDecorators :: "classDeclaration \<Rightarrow> string list" where
  "getKnownDecorators node =
     filter (List.member KNOWN_CLASS_DECORATORS)
       (decoratorNames (getDecoratorsOf (class_modifiers node)))"

text \<open>
  \<open>removeKnownDecorators\<close> returns \<open>undefined\<close> when nothing remains; the factory reads
  that as an empty modifier list.
\<close>

definition removeKnownDecorators :: "classDeclaration \<Rightarrow> modifierLike list" where
  "removeKnownDecorators node =
     (let decorators = getDecoratorsOf (class_modifiers node);
          modifiers = getModifiersOf (class_modifiers node);
          remainingDecorators = filter (\<lambda>d. \<not> isKnownDecorator d) decorators
      in remainingDecorators @ modifiers)"

record propertyInfo =
  name :: string
  type :: "typeNode option"
  isOptional :: bool
  isReadonly :: bool
  hasInitializer :: bool
  isPrivate :: bool
  isNonNull :: bool
  hasGetter :: bool
  hasSetter :: bool
  modifiers :: "modifierLike list"
  decorators :: "string list"

fun getClassProperties_member :: "classElement \<Rightarrow> propertyInfo list" where
  "getClassProperties_member (PropertyDeclaration ms (IdentifierName n) q ty ini) =
     (let modifiers = getModifiersOf ms;
          propertyDecorators = getDecoratorsOf ms;
          isStatic = hasModifierKind StaticKeyword modifiers
      in if isStatic then []
         else
           (let names = decoratorNames propertyDecorators
            in [\<lparr> name = n,
                  type = ty,
                  isOptional = q,
                  isReadonly = hasModifierKind ReadonlyKeyword modifiers,
                  hasInitializer = (ini \<noteq> None),
                  isPrivate = hasModifierKind PrivateKeyword modifiers,
                  isNonNull = List.member names ''NonNull'',
                  hasGetter = List.member names ''Getter'',
                  hasSetter = List.member names ''Setter'',
                  modifiers = propertyDecorators @ modifiers,
                  decorators = names \<rparr>]))"
| "getClassProperties_member _ = []"

definition getClassProperties :: "classDeclaration \<Rightarrow> propertyInfo list" where
  "getClassProperties node = concat (map getClassProperties_member (class_members node))"

definition getRequiredProperties :: "propertyInfo list \<Rightarrow> propertyInfo list" where
  "getRequiredProperties properties =
     filter (\<lambda>p. \<not> isOptional p \<and> \<not> hasInitializer p) properties"

definition getNonNullProperties :: "propertyInfo list \<Rightarrow> propertyInfo list" where
  "getNonNullProperties properties = filter isNonNull properties"

definition hasConstructor :: "classDeclaration \<Rightarrow> bool" where
  "hasConstructor node = list_ex isConstructorDeclaration (class_members node)"

fun isMethodNamed :: "string \<Rightarrow> classElement \<Rightarrow> bool" where
  "isMethodNamed methodName (MethodDeclaration _ (IdentifierName n) _ _ _) = (n = methodName)"
| "isMethodNamed methodName _ = False"

definition hasMethod :: "classDeclaration \<Rightarrow> string \<Rightarrow> bool" where
  "hasMethod node methodName = list_ex (isMethodNamed methodName) (class_members node)"

section \<open>The transformation plan\<close>

datatype constructorType = CtorNone | CtorAll | CtorRequired

text \<open>
  The plan's flags carry the names the source gives them. The generator functions of the
  same names are the constants ending in \<open>Decl\<close>, \<open>Method\<close>, \<open>Methods\<close> or \<open>Members\<close> below.
\<close>

record transformationPlan =
  classDeclaration :: classDeclaration
  className :: string
  properties :: "propertyInfo list"
  planDecorators :: "string list"
  generateConstructor :: bool
  constructorType :: constructorType
  freezeInstance :: bool
  makeReadonly :: bool
  generateToString :: bool
  generateEquals :: bool
  generateHashCode :: bool
  generateWithMethods :: bool
  generateGetters :: bool
  generateSetters :: bool
  generateBuilder :: bool
  generateLog :: bool
  generateSingleton :: bool
  validateNonNull :: bool
  additionalMembers :: "classElement list"

definition createDefaultPlan :: "classDeclaration \<Rightarrow> propertyInfo list \<Rightarrow> transformationPlan" where
  "createDefaultPlan cd props =
     (let hasNonNull = list_ex isNonNull props
      in \<lparr> classDeclaration = cd,
           className = (case class_name cd of
                          None \<Rightarrow> ''Anonymous''
                        | Some n \<Rightarrow> if n = [] then ''Anonymous'' else n),
           properties = props,
           planDecorators = [],
           generateConstructor = False,
           constructorType = CtorAll,
           freezeInstance = False,
           makeReadonly = False,
           generateToString = False,
           generateEquals = False,
           generateHashCode = False,
           generateWithMethods = False,
           generateGetters = False,
           generateSetters = False,
           generateBuilder = False,
           generateLog = False,
           generateSingleton = False,
           validateNonNull = hasNonNull,
           additionalMembers = [] \<rparr>)"

definition createPlan ::
  "classDeclaration \<Rightarrow> propertyInfo list \<Rightarrow> string list \<Rightarrow> transformationPlan" where
  "createPlan cd props decs = (createDefaultPlan cd props)\<lparr>planDecorators := decs\<rparr>"

section \<open>ast-helpers\<close>

definition createConstructorParameter :: "string \<Rightarrow> typeNode option \<Rightarrow> parameterDeclaration" where
  "createConstructorParameter n ty = ParameterDeclaration n ty"

definition createPropertyAssignment :: "string \<Rightarrow> statement" where
  "createPropertyAssignment propertyName =
     ExpressionStatement
       (BinaryExpression (PropertyAccessExpression This propertyName) EqualsToken
          (Identifier propertyName))"

definition createFreezeStatement :: statement where
  "createFreezeStatement =
     ExpressionStatement
       (CallExpression (PropertyAccessExpression (Identifier ''Object'') ''freeze'') [This])"

definition createMethodDeclaration ::
  "string \<Rightarrow> parameterDeclaration list \<Rightarrow> typeNode option \<Rightarrow> statement list \<Rightarrow> classElement"
where
  "createMethodDeclaration n parameters returnType body =
     MethodDeclaration [] (IdentifierName n) parameters returnType body"

text \<open>
  The spans of the template: each field's access followed by \<open>)\<close> for the last field and
  by \<open>, next=\<close> otherwise.
\<close>

fun toStringSpans :: "string list \<Rightarrow> (expression \<times> string) list" where
  "toStringSpans [] = []"
| "toStringSpans [f] = [(PropertyAccessExpression This f, '')'')]"
| "toStringSpans (f # g # fs) =
     (PropertyAccessExpression This f, '', '' @ g @ ''='') # toStringSpans (g # fs)"

definition createToStringTemplateLiteral :: "string \<Rightarrow> string list \<Rightarrow> expression" where
  "createToStringTemplateLiteral cn fieldNames =
     (case fieldNames of
        [] \<Rightarrow> NoSubstitutionTemplateLiteral (cn @ ''()'')
      | f # _ \<Rightarrow> TemplateExpression (cn @ ''('' @ f @ ''='') (toStringSpans fieldNames))"

definition createFieldHashExpression :: "string \<Rightarrow> expression" where
  "createFieldHashExpression fieldName =
     (let fieldAccess = PropertyAccessExpression This fieldName
      in ConditionalExpression
           (BinaryExpression fieldAccess EqualsEqualsToken NullLiteral)
           (NumericLiteral 0)
           (ConditionalExpression
              (BinaryExpression (TypeOfExpression fieldAccess) EqualsEqualsEqualsToken
                 (StringLiteral ''number''))
              fieldAccess
              (PropertyAccessExpression (CallExpression (Identifier ''String'') [fieldAccess])
                 ''length'')))"

definition createHashCodeComputation :: "string list \<Rightarrow> expression" where
  "createHashCodeComputation fieldNames =
     (case fieldNames of
        [] \<Rightarrow> NumericLiteral 0
      | f # fs \<Rightarrow>
          BinaryExpression
            (foldl (\<lambda>result g.
                      BinaryExpression
                        (BinaryExpression result AsteriskToken (NumericLiteral 31))
                        PlusToken (createFieldHashExpression g))
               (createFieldHashExpression f) fs)
            BarToken (NumericLiteral 0))"

definition createEqualityCheck :: "string list \<Rightarrow> string \<Rightarrow> expression" where
  "createEqualityCheck fieldNames otherParam =
     (case map (\<lambda>fieldName.
                  BinaryExpression (PropertyAccessExpression This fieldName)
                    EqualsEqualsEqualsToken
                    (PropertyAccessExpression (Identifier otherParam) fieldName))
             fieldNames of
        [] \<Rightarrow> TrueLiteral
      | c # cs \<Rightarrow>
          foldl (\<lambda>acc check. BinaryExpression acc AmpersandAmpersandToken check) c cs)"

definition createNewInstance :: "string \<Rightarrow> expression list \<Rightarrow> expression" where
  "createNewInstance cn args = NewExpression cn args"

text \<open>\<open>toUpperCase\<close> on one character, for the ASCII letters.\<close>

definition toUpperCase :: "char \<Rightarrow> char" where
  "toUpperCase c =
     (let n = (of_char c :: nat) in if 97 \<le> n \<and> n \<le> 122 then char_of (n - 32) else c)"

fun capitalize :: "string \<Rightarrow> string" where
  "capitalize [] = []"
| "capitalize (c # cs) = toUpperCase c # cs"

section \<open>Generators\<close>

definition generateFreezeStatement :: statement where
  "generateFreezeStatement = createFreezeStatement"

definition generateNonNullValidation :: "string \<Rightarrow> statement" where
  "generateNonNullValidation propertyName =
     IfStatement
       (BinaryExpression (Identifier propertyName) EqualsEqualsToken NullLiteral)
       (Block
          [ThrowStatement
             (NewExpression ''Error''
                [StringLiteral (propertyName @ '' cannot be null or undefined'')])])"

definition getConstructorProperties :: "transformationPlan \<Rightarrow> propertyInfo list" where
  "getConstructorProperties plan =
     (case constructorType plan of
        CtorNone \<Rightarrow> []
      | CtorRequired \<Rightarrow>
          filter (\<lambda>p. \<not> isOptional p \<and> \<not> hasInitializer p) (properties plan)
      | CtorAll \<Rightarrow> properties plan)"

definition generateConstructorDecl :: "transformationPlan \<Rightarrow> statement list \<Rightarrow> classElement" where
  "generateConstructorDecl plan additionalStatements =
     (let constructorProps = getConstructorProperties plan;
          parameters =
            map (\<lambda>prop. createConstructorParameter (name prop) (type prop)) constructorProps;
          validations =
            (if validateNonNull plan
             then map (\<lambda>prop. generateNonNullValidation (name prop))
                    (filter isNonNull constructorProps)
             else []);
          assignments = map (\<lambda>prop. createPropertyAssignment (name prop)) constructorProps;
          bodyStatements = validations @ assignments @ additionalStatements
      in ConstructorDeclaration [] parameters bodyStatements)"

definition generateToStringMethod :: "transformationPlan \<Rightarrow> classElement" where
  "generateToStringMethod plan =
     (let fieldNames = map name (properties plan);
          templateLiteral = createToStringTemplateLiteral (className plan) fieldNames
      in createMethodDeclaration ''toString'' [] (Some (KeywordTypeNode StringKeyword))
           [ReturnStatement templateLiteral])"

definition generateEqualsMethod :: "transformationPlan \<Rightarrow> classElement" where
  "generateEqualsMethod plan =
     (let otherParam = ''other'';
          fieldNames = map name (properties plan);
          statements =
            [IfStatement
               (BinaryExpression (Identifier otherParam) EqualsEqualsToken NullLiteral)
               (ReturnStatement FalseLiteral),
             IfStatement
               (BinaryExpression This EqualsEqualsEqualsToken (Identifier otherParam))
               (ReturnStatement TrueLiteral),
             IfStatement
               (PrefixUnaryExclamation
                  (ParenthesizedExpression
                     (BinaryExpression (Identifier otherParam) InstanceOfKeyword
                        (Identifier (className plan)))))
               (ReturnStatement FalseLiteral),
             ReturnStatement (createEqualityCheck fieldNames otherParam)];
          parameter = ParameterDeclaration otherParam (Some (TypeReferenceNode (className plan)))
      in createMethodDeclaration ''equals'' [parameter] (Some (KeywordTypeNode BooleanKeyword))
           statements)"

definition generateHashCodeMethod :: "transformationPlan \<Rightarrow> classElement" where
  "generateHashCodeMethod plan =
     (let fieldNames = map name (properties plan);
          hashExpression = createHashCodeComputation fieldNames
      in createMethodDeclaration ''hashCode'' [] (Some (KeywordTypeNode NumberKeyword))
           [ReturnStatement hashExpression])"

definition generateWithMethod ::
  "transformationPlan \<Rightarrow> string \<Rightarrow> typeNode option \<Rightarrow> classElement" where
  "generateWithMethod plan propertyName propertyType =
     (let methodName = ''with'' @ capitalize propertyName;
          constructorArgs =
            map (\<lambda>p. if name p = propertyName then Identifier propertyName
                      else PropertyAccessExpression This (name p))
              (properties plan);
          newInstance = createNewInstance (className plan) constructorArgs;
          parameter = ParameterDeclaration propertyName propertyType
      in createMethodDeclaration methodName [parameter]
           (Some (TypeReferenceNode (className plan))) [ReturnStatement newInstance])"

definition generateWithMethodsList :: "transformationPlan \<Rightarrow> classElement list" where
  "generateWithMethodsList plan =
     map (\<lambda>prop. generateWithMethod plan (name prop) (type prop)) (properties plan)"

definition generateGettersList :: "transformationPlan \<Rightarrow> classElement list" where
  "generateGettersList plan =
     map (\<lambda>prop.
            createMethodDeclaration (''get'' @ capitalize (name prop)) [] (type prop)
              [ReturnStatement (PropertyAccessExpression This (name prop))])
       (properties plan)"

definition generateSettersList :: "transformationPlan \<Rightarrow> classElement list" where
  "generateSettersList plan =
     map (\<lambda>prop.
            createMethodDeclaration (''set'' @ capitalize (name prop))
              [ParameterDeclaration (name prop) (type prop)]
              (Some (KeywordTypeNode VoidKeyword))
              [ExpressionStatement
                 (BinaryExpression (PropertyAccessExpression This (name prop)) EqualsToken
                    (Identifier (name prop)))])
       (filter (\<lambda>prop. \<not> isReadonly prop) (properties plan))"

definition generateBuilderMembers :: "transformationPlan \<Rightarrow> classElement list" where
  "generateBuilderMembers plan =
     [MethodDeclaration [Modifier StaticKeyword] (IdentifierName ''builder'') []
        (Some (TypeReferenceNode (className plan @ ''Builder'')))
        [ReturnStatement (NewExpression (className plan @ ''Builder'') [])]]"

definition generateSingletonMembers :: "transformationPlan \<Rightarrow> classElement list" where
  "generateSingletonMembers plan =
     (let instanceRef = PropertyAccessExpression (Identifier (className plan)) ''instance''
      in [PropertyDeclaration [Modifier PrivateKeyword, Modifier StaticKeyword]
            (IdentifierName ''instance'') False
            (Some (UnionTypeNode [TypeReferenceNode (className plan), LiteralNullTypeNode]))
            (Some NullLiteral),
          MethodDeclaration [Modifier StaticKeyword] (IdentifierName ''getInstance'') []
            (Some (TypeReferenceNode (className plan)))
            [IfStatement (PrefixUnaryExclamation instanceRef)
               (Block
                  [ExpressionStatement
                     (BinaryExpression instanceRef EqualsToken
                        (NewExpression (className plan) []))]),
             ReturnStatement instanceRef]])"

definition generateLogMembers :: "transformationPlan \<Rightarrow> classElement list" where
  "generateLogMembers plan =
     [PropertyDeclaration [Modifier ProtectedKeyword, Modifier ReadonlyKeyword]
        (IdentifierName ''log'') False None (Some (Identifier ''console''))]"

section \<open>Handlers and their registry\<close>

record decoratorHandler =
  decoratorName :: string
  priority :: int
  modifyPlan :: "transformationPlan \<Rightarrow> transformationPlan"
  generateMembers :: "transformationPlan \<Rightarrow> classElement list"

definition recordModifyPlan :: "transformationPlan \<Rightarrow> transformationPlan" where
  "recordModifyPlan plan =
     plan\<lparr> generateConstructor := True, constructorType := CtorAll, freezeInstance := True,
           makeReadonly := True, generateToString := True \<rparr>"

definition recordGenerateMembers :: "transformationPlan \<Rightarrow> classElement list" where
  "recordGenerateMembers plan =
     (if generateToString plan then [generateToStringMethod plan] else [])"

definition RecordHandler :: decoratorHandler where
  "RecordHandler =
     \<lparr> decoratorName = ''Record'', priority = 100,
       modifyPlan = recordModifyPlan, generateMembers = recordGenerateMembers \<rparr>"

text \<open>The Value handler's two methods have the same bodies as the Record handler's.\<close>

definition ValueHandler :: decoratorHandler where
  "ValueHandler =
     \<lparr> decoratorName = ''Value'', priority = 100,
       modifyPlan = recordModifyPlan, generateMembers = recordGenerateMembers \<rparr>"

definition equalsGenerateMembers :: "transformationPlan \<Rightarrow> classElement list" where
  "equalsGenerateMembers plan =
     (if generateEquals plan then [generateEqualsMethod plan] else []) @
     (if generateHashCode plan then [generateHashCodeMethod plan] else [])"

definition EqualsHandler :: decoratorHandler where
  "EqualsHandler =
     \<lparr> decoratorName = ''Equals'', priority = 70,
       modifyPlan = (\<lambda>plan. plan\<lparr> generateEquals := True, generateHashCode := True \<rparr>),
       generateMembers = equalsGenerateMembers \<rparr>"

definition WithHandler :: decoratorHandler where
  "WithHandler =
     \<lparr> decoratorName = ''With'', priority = 70,
       modifyPlan = (\<lambda>plan. plan\<lparr> generateWithMethods := True \<rparr>),
       generateMembers =
         (\<lambda>plan. if generateWithMethods plan then generateWithMethodsList plan else []) \<rparr>"

definition GetterHandler :: decoratorHandler where
  "GetterHandler =
     \<lparr> decoratorName = ''Getter'', priority = 80,
       modifyPlan = (\<lambda>plan. plan\<lparr> generateGetters := True \<rparr>),
       generateMembers =
         (\<lambda>plan. if generateGetters plan then generateGettersList plan else []) \<rparr>"

definition SetterHandler :: decoratorHandler where
  "SetterHandler =
     \<lparr> decoratorName = ''Setter'', priority = 80,
       modifyPlan = (\<lambda>plan. plan\<lparr> generateSetters := True \<rparr>),
       generateMembers =
         (\<lambda>plan. if generateSetters plan then generateSettersList plan else []) \<rparr>"

definition ToStringHandler :: decoratorHandler where
  "ToStringHandler =
     \<lparr> decoratorName = ''ToString'', priority = 70,
       modifyPlan = (\<lambda>plan. plan\<lparr> generateToString := True \<rparr>),
       generateMembers =
         (\<lambda>plan. if generateToString plan then [generateToStringMethod plan] else []) \<rparr>"

definition dataGenerateMembers :: "transformationPlan \<Rightarrow> classElement list" where
  "dataGenerateMembers plan =
     (if generateToString plan then [generateToStringMethod plan] else []) @
     (if generateEquals plan then [generateEqualsMethod plan] else []) @
     (if generateHashCode plan then [generateHashCodeMethod plan] else []) @
     (if generateGetters plan then generateGettersList plan else []) @
     (if generateSetters plan then generateSettersList plan else [])"

definition DataHandler :: decoratorHandler where
  "DataHandler =
     \<lparr> decoratorName = ''Data'', priority = 100,
       modifyPlan =
         (\<lambda>plan. plan\<lparr> generateConstructor := True, constructorType := CtorAll,
                        generateGetters := True, generateSetters := True,
                        generateToString := True, generateEquals := True,
                        generateHashCode := True \<rparr>),
       generateMembers = dataGenerateMembers \<rparr>"

definition BuilderHandler :: decoratorHandler where
  "BuilderHandler =
     \<lparr> decoratorName = ''Builder'', priority = 90,
       modifyPlan =
         (\<lambda>plan. plan\<lparr> generateBuilder := True, generateConstructor := True,
                        constructorType := CtorAll \<rparr>),
       generateMembers =
         (\<lambda>plan. if generateBuilder plan then generateBuilderMembers plan else []) \<rparr>"

definition NoArgsConstructorHandler :: decoratorHandler where
  "NoArgsConstructorHandler =
     \<lparr> decoratorName = ''NoArgsConstructor'', priority = 95,
       modifyPlan = (\<lambda>plan. plan\<lparr> generateConstructor := True, constructorType := CtorNone \<rparr>),
       generateMembers = (\<lambda>plan. []) \<rparr>"

definition AllArgsConstructorHandler :: decoratorHandler where
  "AllArgsConstructorHandler =
     \<lparr> decoratorName = ''AllArgsConstructor'', priority = 95,
       modifyPlan = (\<lambda>plan. plan\<lparr> generateConstructor := True, constructorType := CtorAll \<rparr>),
       generateMembers = (\<lambda>plan. []) \<rparr>"

definition RequiredArgsConstructorHandler :: decoratorHandler where
  "RequiredArgsConstructorHandler =
     \<lparr> decoratorName = ''RequiredArgsConstructor'', priority = 95,
       modifyPlan =
         (\<lambda>plan. plan\<lparr> generateConstructor := True, constructorType := CtorRequired \<rparr>),
       generateMembers = (\<lambda>plan. []) \<rparr>"

definition LogHandler :: decoratorHandler where
  "LogHandler =
     \<lparr> decoratorName = ''Log'', priority = 60,
       modifyPlan = (\<lambda>plan. plan\<lparr> generateLog := True \<rparr>),
       generateMembers = (\<lambda>plan. if generateLog plan then generateLogMembers plan else []) \<rparr>"

definition SingletonHandler :: decoratorHandler where
  "SingletonHandler =
     \<lparr> decoratorName = ''Singleton'', priority = 100,
       modifyPlan = (\<lambda>plan. plan\<lparr> generateSingleton := True \<rparr>),
       generateMembers =
         (\<lambda>plan. if generateSingleton plan then generateSingletonMembers plan else []) \<rparr>"

text \<open>
  The registry is a \<open>Map\<close> from decorator name to handler: an association list in insertion
  order, where setting a key that is present replaces its value in place.
\<close>

type_synonym handlerRegistry = "(string \<times> decoratorHandler) list"

fun mapSet :: "string \<Rightarrow> decoratorHandler \<Rightarrow> handlerRegistry \<Rightarrow> handlerRegistry" where
  "mapSet k v [] = [(k, v)]"
| "mapSet k v ((k', v') # r) = (if k' = k then (k, v) # r else (k', v') # mapSet k v r)"

definition register :: "handlerRegistry \<Rightarrow> decoratorHandler \<Rightarrow> handlerRegistry" where
  "register reg h = mapSet (decoratorName h) h reg"

definition defaultHandlers :: "decoratorHandler list" where
  "defaultHandlers =
     [RecordHandler, ValueHandler, EqualsHandler, WithHandler, GetterHandler, SetterHandler,
      ToStringHandler, DataHandler, BuilderHandler, NoArgsConstructorHandler,
      AllArgsConstructorHandler, RequiredArgsConstructorHandler, LogHandler,
      SingletonHandler]"

definition registerDefaults :: handlerRegistry where
  "registerDefaults = foldl register [] defaultHandlers"

definition registryGet :: "handlerRegistry \<Rightarrow> string \<Rightarrow> decoratorHandler option" where
  "registryGet reg n = map_of reg n"

text \<open>\<open>Array.prototype.sort\<close> is stable; the comparator orders by descending priority.\<close>

definition getHandlersForDecorators ::
  "handlerRegistry \<Rightarrow> string list \<Rightarrow> decoratorHandler list" where
  "getHandlersForDecorators reg decoratorNames' =
     sort_key (\<lambda>h. - priority h) (List.map_filter (registryGet reg) decoratorNames')"

definition handlerRegistry :: handlerRegistry where
  "handlerRegistry = registerDefaults"

section \<open>The visitor\<close>

fun stripPropertyDecorators :: "classElement \<Rightarrow> classElement" where
  "stripPropertyDecorators (PropertyDeclaration ms n q ty ini) =
     (let existingModifiers = getModifiersOf ms;
          existingDecorators = getDecoratorsOf ms;
          remainingDecorators =
            filter (\<lambda>d. case getDecoratorName d of
                          None \<Rightarrow> True
                        | Some dn \<Rightarrow> \<not> List.member KNOWN_PROPERTY_DECORATORS dn)
              existingDecorators
      in if length remainingDecorators = length existingDecorators
         then PropertyDeclaration ms n q ty ini
         else PropertyDeclaration (remainingDecorators @ existingModifiers) n q ty ini)"
| "stripPropertyDecorators member = member"

fun makePropertyReadonly :: "classElement \<Rightarrow> classElement" where
  "makePropertyReadonly (PropertyDeclaration ms n q ty ini) =
     (let existingModifiers = getModifiersOf ms;
          existingDecorators = getDecoratorsOf ms;
          hasReadonly = hasModifierKind ReadonlyKeyword existingModifiers
      in if hasReadonly then PropertyDeclaration ms n q ty ini
         else PropertyDeclaration
                (existingDecorators @ [Modifier ReadonlyKeyword] @ existingModifiers)
                n q ty ini)"
| "makePropertyReadonly member = member"

text \<open>One round of the loop over the original members: what it pushes for a member.\<close>

definition transformMember :: "transformationPlan \<Rightarrow> classElement \<Rightarrow> classElement list" where
  "transformMember plan member =
     (if isPropertyDeclaration member then
        (let transformed = stripPropertyDecorators member
         in [if makeReadonly plan then makePropertyReadonly transformed else transformed])
      else if isConstructorDeclaration member then
        (if \<not> generateConstructor plan then [member] else [])
      else [member])"

text \<open>One round of the loop over a handler's generated members.\<close>

fun isGeneratedKept :: "classDeclaration \<Rightarrow> classElement \<Rightarrow> bool" where
  "isGeneratedKept originalClass (MethodDeclaration ms (IdentifierName n) ps rt body) =
     (\<not> hasMethod originalClass n)"
| "isGeneratedKept originalClass member = True"

definition executeTransformation ::
  "transformationPlan \<Rightarrow> decoratorHandler list \<Rightarrow> classDeclaration \<Rightarrow> classDeclaration" where
  "executeTransformation plan handlers originalClass =
     (let copied = concat (map (transformMember plan) (class_members originalClass));
          withConstructor =
            (if generateConstructor plan \<and> \<not> hasConstructor originalClass
             then generateConstructorDecl plan
                    (if freezeInstance plan then [generateFreezeStatement] else [])
                  # copied
             else copied);
          newMembers =
            withConstructor @
            concat (map (\<lambda>handler.
                           filter (isGeneratedKept originalClass) (generateMembers handler plan))
                      handlers);
          newModifiers = removeKnownDecorators originalClass
      in ClassDeclaration newModifiers (class_name originalClass)
           (class_typeParameters originalClass) (class_heritageClauses originalClass)
           newMembers)"

text \<open>The plan once every selected handler has modified it, in order.\<close>

definition planAfterHandlers ::
  "decoratorHandler list \<Rightarrow> transformationPlan \<Rightarrow> transformationPlan" where
  "planAfterHandlers handlers plan = foldl (\<lambda>p handler. modifyPlan handler p) plan handlers"

definition transformClass :: "classDeclaration \<Rightarrow> classDeclaration option" where
  "transformClass node =
     (let decs = getKnownDecorators node;
          props = getClassProperties node;
          hasPropertyDecorators = list_ex (\<lambda>p. length (decorators p) > 0) props
      in if length decs = 0 \<and> \<not> hasPropertyDecorators then None
         else
           (let plan = createPlan node props decs;
                handlers = getHandlersForDecorators handlerRegistry decs;
                plan' = planAfterHandlers handlers plan
            in Some (executeTransformation plan' handlers node)))"

text \<open>
  The visitor returns a transformed class as it is and visits the children of every other
  node. \<open>visitEachChild\<close> is written out per node kind; expressions hold no class
  declaration in this tree.
\<close>

fun visitor :: "statement \<Rightarrow> statement"
  and visitEachChildOfMember :: "classElement \<Rightarrow> classElement" where
  "visitor (ClassStatement (ClassDeclaration ms n tps hcs members)) =
     (case transformClass (ClassDeclaration ms n tps hcs members) of
        Some transformed \<Rightarrow> ClassStatement transformed
      | None \<Rightarrow>
          ClassStatement (ClassDeclaration ms n tps hcs (map visitEachChildOfMember members)))"
| "visitor (IfStatement e s) = IfStatement e (visitor s)"
| "visitor (Block ss) = Block (map visitor ss)"
| "visitor (OtherStatement k ss) = OtherStatement k (map visitor ss)"
| "visitor (ThrowStatement e) = ThrowStatement e"
| "visitor (ExpressionStatement e) = ExpressionStatement e"
| "visitor (ReturnStatement e) = ReturnStatement e"
| "visitEachChildOfMember (PropertyDeclaration ms n q ty ini) =
     PropertyDeclaration ms n q ty ini"
| "visitEachChildOfMember (ConstructorDeclaration ms ps body) =
     ConstructorDeclaration ms ps (map visitor body)"
| "visitEachChildOfMember (MethodDeclaration ms n ps rt body) =
     MethodDeclaration ms n ps rt (map visitor body)"
| "visitEachChildOfMember (OtherClassElement k body) = OtherClassElement k (map visitor body)"

text \<open>A source file is its list of statements.\<close>

definition transformSourceFile :: "statement list \<Rightarrow> statement list" where
  "transformSourceFile sourceFile = map visitor sourceFile"

section \<open>Running generated code\<close>

text \<open>
  The generated members are JavaScript. Their behaviour is read off a small evaluator for
  exactly the statements and expressions the generators build; anything else is
  \<open>NotModelled\<close> or \<open>Unsupported\<close>. Numbers are the host's: their type and arithmetic are
  parameters (\<open>'n host\<close>), as is \<open>String(v)\<close>. A class is a value, known by its name.
\<close>

datatype 'n jsValue =
    JUndefined
  | JNull
  | JBoolean bool
  | JNumber 'n
  | JString string
  | JObject nat
  | JClass string

record 'n host =
  numberLiteral :: "nat \<Rightarrow> 'n"
  numberTimes :: "'n \<Rightarrow> 'n \<Rightarrow> 'n"
  numberPlus :: "'n \<Rightarrow> 'n \<Rightarrow> 'n"
  numberBitOr :: "'n \<Rightarrow> 'n \<Rightarrow> 'n"
  numberStrictEquals :: "'n \<Rightarrow> 'n \<Rightarrow> bool"
  numberToBoolean :: "'n \<Rightarrow> bool"
  toStringOf :: "'n jsValue \<Rightarrow> string"

text \<open>
  An object: the classes it is an instance of, its field values (\<open>JUndefined\<close> where a
  field is absent), and whether it is frozen. The heap maps references to objects.
\<close>

record 'n jsObject =
  instanceOfClasses :: "string list"
  fieldValues :: "string \<Rightarrow> 'n jsValue"
  isFrozen :: bool

type_synonym 'n heap = "nat \<Rightarrow> 'n jsObject"

datatype jsError = Error string | TypeError | ReferenceError

datatype 'n evaluation =
    Value "'n jsValue"
  | Raises jsError
  | NotModelled

datatype 'n completion =
    Normal "'n heap"
  | Return "'n jsValue"
  | Throw jsError
  | Unsupported

definition isNullish :: "'n jsValue \<Rightarrow> bool" where
  "isNullish v = (v = JNull \<or> v = JUndefined)"

definition toBoolean :: "'n host \<Rightarrow> 'n jsValue \<Rightarrow> bool" where
  "toBoolean h v =
     (case v of
        JUndefined \<Rightarrow> False
      | JNull \<Rightarrow> False
      | JBoolean b \<Rightarrow> b
      | JNumber n \<Rightarrow> numberToBoolean h n
      | JString s \<Rightarrow> s \<noteq> []
      | JObject a \<Rightarrow> True
      | JClass c \<Rightarrow> True)"

definition typeOf :: "'n jsValue \<Rightarrow> string" where
  "typeOf v =
     (case v of
        JUndefined \<Rightarrow> ''undefined''
      | JNull \<Rightarrow> ''object''
      | JBoolean b \<Rightarrow> ''boolean''
      | JNumber n \<Rightarrow> ''number''
      | JString s \<Rightarrow> ''string''
      | JObject a \<Rightarrow> ''object''
      | JClass c \<Rightarrow> ''function'')"

definition strictEquals :: "'n host \<Rightarrow> 'n jsValue \<Rightarrow> 'n jsValue \<Rightarrow> bool" where
  "strictEquals h v w =
     (case (v, w) of
        (JNumber x, JNumber y) \<Rightarrow> numberStrictEquals h x y
      | _ \<Rightarrow> v = w)"

text \<open>Loose equality, where one side is \<open>null\<close> or \<open>undefined\<close>.\<close>

definition looseEquals :: "'n jsValue \<Rightarrow> 'n jsValue \<Rightarrow> bool option" where
  "looseEquals v w =
     (if isNullish v \<or> isNullish w then Some (isNullish v \<and> isNullish w) else None)"

text \<open>
  \<open>v instanceof C\<close> for a class \<open>C\<close>: whether \<open>v\<close> is an object whose classes include the
  one of that name.
\<close>

definition isInstance :: "'n heap \<Rightarrow> 'n jsValue \<Rightarrow> string \<Rightarrow> bool" where
  "isInstance heap v c =
     (case v of JObject a \<Rightarrow> List.member (instanceOfClasses (heap a)) c | _ \<Rightarrow> False)"

text \<open>
  A binary operator on two values. The right operand of \<open>instanceof\<close> must be a class;
  any other value there is a \<open>TypeError\<close>.
\<close>

definition binaryValue ::
  "'n host \<Rightarrow> 'n heap \<Rightarrow> binaryOperator \<Rightarrow> 'n jsValue \<Rightarrow> 'n jsValue \<Rightarrow> 'n evaluation" where
  "binaryValue h heap op v w =
     (case op of
        EqualsEqualsToken \<Rightarrow>
          (case looseEquals v w of Some b \<Rightarrow> Value (JBoolean b) | None \<Rightarrow> NotModelled)
      | EqualsEqualsEqualsToken \<Rightarrow> Value (JBoolean (strictEquals h v w))
      | AsteriskToken \<Rightarrow>
          (case (v, w) of
             (JNumber x, JNumber y) \<Rightarrow> Value (JNumber (numberTimes h x y))
           | _ \<Rightarrow> NotModelled)
      | PlusToken \<Rightarrow>
          (case (v, w) of
             (JNumber x, JNumber y) \<Rightarrow> Value (JNumber (numberPlus h x y))
           | _ \<Rightarrow> NotModelled)
      | BarToken \<Rightarrow>
          (case (v, w) of
             (JNumber x, JNumber y) \<Rightarrow> Value (JNumber (numberBitOr h x y))
           | _ \<Rightarrow> NotModelled)
      | InstanceOfKeyword \<Rightarrow>
          (case w of
             JClass c \<Rightarrow> Value (JBoolean (isInstance heap v c))
           | _ \<Rightarrow> Raises TypeError)
      | _ \<Rightarrow> NotModelled)"

text \<open>Reading a property: of \<open>null\<close> and \<open>undefined\<close> it is a \<open>TypeError\<close>.\<close>

definition propertyOf :: "'n host \<Rightarrow> 'n heap \<Rightarrow> 'n jsValue \<Rightarrow> string \<Rightarrow> 'n evaluation" where
  "propertyOf h heap v f =
     (case v of
        JObject a \<Rightarrow> Value (fieldValues (heap a) f)
      | JString s \<Rightarrow>
          if f = ''length'' then Value (JNumber (numberLiteral h (length s))) else NotModelled
      | JNull \<Rightarrow> Raises TypeError
      | JUndefined \<Rightarrow> Raises TypeError
      | _ \<Rightarrow> NotModelled)"

text \<open>
  The globals the generated code names. The environment \<open>env\<close> holds the bindings in
  scope; a global is meant only where the environment does not bind its name.
\<close>

definition standardGlobals :: "string list" where
  "standardGlobals = [''Object'', ''Error'', ''String'', ''console'']"

text \<open>
  An identifier bound in the environment has its value there; one that is bound nowhere
  is a \<open>ReferenceError\<close>. \<open>this\<close> is \<open>None\<close> while it is not initialised (in the constructor
  of a derived class before \<open>super()\<close> returns), and reading it then is a
  \<open>ReferenceError\<close>. Operands are evaluated from left to right.
\<close>

fun evalExpression ::
  "'n host \<Rightarrow> 'n heap \<Rightarrow> 'n jsValue option \<Rightarrow> (string \<Rightarrow> 'n jsValue option) \<Rightarrow> expression
     \<Rightarrow> 'n evaluation" where
  "evalExpression h heap t env (Identifier x) =
     (case env x of
        Some v \<Rightarrow> Value v
      | None \<Rightarrow> if List.member standardGlobals x then NotModelled else Raises ReferenceError)"
| "evalExpression h heap t env This =
     (case t of Some v \<Rightarrow> Value v | None \<Rightarrow> Raises ReferenceError)"
| "evalExpression h heap t env NullLiteral = Value JNull"
| "evalExpression h heap t env TrueLiteral = Value (JBoolean True)"
| "evalExpression h heap t env FalseLiteral = Value (JBoolean False)"
| "evalExpression h heap t env (NumericLiteral k) = Value (JNumber (numberLiteral h k))"
| "evalExpression h heap t env (StringLiteral s) = Value (JString s)"
| "evalExpression h heap t env (PropertyAccessExpression e f) =
     (case evalExpression h heap t env e of
        Value v \<Rightarrow> propertyOf h heap v f
      | r \<Rightarrow> r)"
| "evalExpression h heap t env (BinaryExpression l op r) =
     (case op of
        EqualsToken \<Rightarrow> NotModelled
      | AmpersandAmpersandToken \<Rightarrow>
          (case evalExpression h heap t env l of
             Value v \<Rightarrow> if toBoolean h v then evalExpression h heap t env r else Value v
           | res \<Rightarrow> res)
      | _ \<Rightarrow>
          (case evalExpression h heap t env l of
             Value v \<Rightarrow>
               (case evalExpression h heap t env r of
                  Value w \<Rightarrow> binaryValue h heap op v w
                | res \<Rightarrow> res)
           | res \<Rightarrow> res))"
| "evalExpression h heap t env (PrefixUnaryExclamation e) =
     (case evalExpression h heap t env e of
        Value v \<Rightarrow> Value (JBoolean (\<not> toBoolean h v))
      | res \<Rightarrow> res)"
| "evalExpression h heap t env (ParenthesizedExpression e) = evalExpression h heap t env e"
| "evalExpression h heap t env (TypeOfExpression e) =
     (case evalExpression h heap t env e of
        Value v \<Rightarrow> Value (JString (typeOf v))
      | Raises err \<Rightarrow>
          (case e of Identifier x \<Rightarrow> Value (JString ''undefined'') | _ \<Rightarrow> Raises err)
      | NotModelled \<Rightarrow> NotModelled)"
| "evalExpression h heap t env (ConditionalExpression c e1 e2) =
     (case evalExpression h heap t env c of
        Value v \<Rightarrow>
          if toBoolean h v then evalExpression h heap t env e1
          else evalExpression h heap t env e2
      | res \<Rightarrow> res)"
| "evalExpression h heap t env (CallExpression f [e]) =
     (if f = Identifier ''String'' \<and> env ''String'' = None
      then (case evalExpression h heap t env e of
              Value v \<Rightarrow> Value (JString (toStringOf h v))
            | res \<Rightarrow> res)
      else NotModelled)"
| "evalExpression h heap t env (CallExpression f args) = NotModelled"
| "evalExpression h heap t env (NewExpression c args) = NotModelled"
| "evalExpression h heap t env (NoSubstitutionTemplateLiteral s) = NotModelled"
| "evalExpression h heap t env (TemplateExpression s spans) = NotModelled"
| "evalExpression h heap t env (OtherExpression k) = NotModelled"

text \<open>
  The two expression statements the constructor generator builds: the assignment
  \<open>this.f = e\<close>, which a frozen object rejects, and \<open>Object.freeze(this)\<close>, with \<open>Object\<close>
  the global.
\<close>

definition execExpressionStatement ::
  "'n host \<Rightarrow> 'n jsValue option \<Rightarrow> (string \<Rightarrow> 'n jsValue option) \<Rightarrow> 'n heap \<Rightarrow> expression
     \<Rightarrow> 'n completion" where
  "execExpressionStatement h t env heap e =
     (case e of
        BinaryExpression (PropertyAccessExpression This f) EqualsToken r \<Rightarrow>
          (case t of
             None \<Rightarrow> Throw ReferenceError
           | Some (JObject a) \<Rightarrow>
               (case evalExpression h heap t env r of
                  Value v \<Rightarrow>
                    if isFrozen (heap a) then Throw TypeError
                    else Normal
                           (heap(a := (heap a)\<lparr>fieldValues := (fieldValues (heap a))(f := v)\<rparr>))
                | Raises err \<Rightarrow> Throw err
                | NotModelled \<Rightarrow> Unsupported)
           | _ \<Rightarrow> Unsupported)
      | CallExpression (PropertyAccessExpression (Identifier ob) m) [This] \<Rightarrow>
          if ob = ''Object'' \<and> m = ''freeze'' \<and> env ''Object'' = None
          then (case t of
                  None \<Rightarrow> Throw ReferenceError
                | Some (JObject a) \<Rightarrow> Normal (heap(a := (heap a)\<lparr>isFrozen := True\<rparr>))
                | _ \<Rightarrow> Unsupported)
          else Unsupported
      | _ \<Rightarrow> Unsupported)"

text \<open>\<open>throw new Error(m)\<close>, with \<open>Error\<close> the global.\<close>

definition execThrow ::
  "'n host \<Rightarrow> 'n jsValue option \<Rightarrow> (string \<Rightarrow> 'n jsValue option) \<Rightarrow> 'n heap \<Rightarrow> expression
     \<Rightarrow> 'n completion" where
  "execThrow h t env heap e =
     (case e of
        NewExpression c [m] \<Rightarrow>
          if c = ''Error'' \<and> env ''Error'' = None
          then (case evalExpression h heap t env m of
                  Value (JString s) \<Rightarrow> Throw (Error s)
                | Raises err \<Rightarrow> Throw err
                | _ \<Rightarrow> Unsupported)
          else Unsupported
      | _ \<Rightarrow> Unsupported)"

fun execStatement ::
  "'n host \<Rightarrow> 'n jsValue option \<Rightarrow> (string \<Rightarrow> 'n jsValue option) \<Rightarrow> 'n heap \<Rightarrow> statement
     \<Rightarrow> 'n completion"
  and execStatements ::
  "'n host \<Rightarrow> 'n jsValue option \<Rightarrow> (string \<Rightarrow> 'n jsValue option) \<Rightarrow> 'n heap
     \<Rightarrow> statement list \<Rightarrow> 'n completion" where
  "execStatement h t env heap (IfStatement c s) =
     (case evalExpression h heap t env c of
        Value v \<Rightarrow> if toBoolean h v then execStatement h t env heap s else Normal heap
      | Raises err \<Rightarrow> Throw err
      | NotModelled \<Rightarrow> Unsupported)"
| "execStatement h t env heap (Block ss) = execStatements h t env heap ss"
| "execStatement h t env heap (ThrowStatement e) = execThrow h t env heap e"
| "execStatement h t env heap (ExpressionStatement e) = execExpressionStatement h t env heap e"
| "execStatement h t env heap (ReturnStatement e) =
     (case evalExpression h heap t env e of
        Value v \<Rightarrow> Return v
      | Raises err \<Rightarrow> Throw err
      | NotModelled \<Rightarrow> Unsupported)"
| "execStatement h t env heap (ClassStatement c) = Unsupported"
| "execStatement h t env heap (OtherStatement k ss) = Unsupported"
| "execStatements h t env heap [] = Normal heap"
| "execStatements h t env heap (s # ss) =
     (case execStatement h t env heap s of
        Normal heap' \<Rightarrow> execStatements h t env heap' ss
      | c \<Rightarrow> c)"

text \<open>
  A call binds the parameters to the arguments by position, \<open>undefined\<close> where an argument
  is missing; where two parameters share a name the later one is the binding.
\<close>

definition argumentAt :: "'n jsValue list \<Rightarrow> nat \<Rightarrow> 'n jsValue" where
  "argumentAt args i = (if i < length args then args ! i else JUndefined)"

definition bindParameters ::
  "parameterDeclaration list \<Rightarrow> 'n jsValue list \<Rightarrow> (string \<Rightarrow> 'n jsValue option)" where
  "bindParameters params args =
     map_of (rev (zip (map param_name params) (map (argumentAt args) [0..<length params])))"

text \<open>
  A parameter list parses only if no two parameters share a name and none is named by a
  reserved word of strict-mode code, which the body of a class is.
\<close>

definition reservedWords :: "string list" where
  "reservedWords =
     [''break'', ''case'', ''catch'', ''class'', ''const'', ''continue'', ''debugger'',
      ''default'', ''delete'', ''do'', ''else'', ''enum'', ''export'', ''extends'',
      ''false'', ''finally'', ''for'', ''function'', ''if'', ''import'', ''in'',
      ''instanceof'', ''new'', ''null'', ''return'', ''super'', ''switch'', ''this'',
      ''throw'', ''true'', ''try'', ''typeof'', ''var'', ''void'', ''while'', ''with'',
      ''yield'', ''let'', ''static'', ''implements'', ''interface'', ''package'',
      ''private'', ''protected'', ''public'', ''await'', ''arguments'', ''eval'']"

definition parametersParse :: "parameterDeclaration list \<Rightarrow> bool" where
  "parametersParse params =
     (distinct (map param_name params)
      \<and> list_all (\<lambda>p. \<not> List.member reservedWords (param_name p)) params)"


text \<open>
  Inside the body of a class the bindings of the enclosing scope are visible, then the
  class's own name, if it has one, bound to the class, then the parameters.
\<close>

definition classBinding :: "classDeclaration \<Rightarrow> (string \<Rightarrow> 'n jsValue option)" where
  "classBinding node =
     (case class_name node of None \<Rightarrow> Map.empty | Some n \<Rightarrow> [n \<mapsto> JClass n])"

definition memberEnvironment ::
  "(string \<Rightarrow> 'n jsValue option) \<Rightarrow> classDeclaration \<Rightarrow> parameterDeclaration list
     \<Rightarrow> 'n jsValue list \<Rightarrow> (string \<Rightarrow> 'n jsValue option)" where
  "memberEnvironment scope node params args =
     (scope ++ classBinding node) ++ bindParameters params args"


fun isExtendsClause :: "heritageClause \<Rightarrow> bool" where
  "isExtendsClause (ExtendsClause b) = True"
| "isExtendsClause (ImplementsClause b) = False"

definition hasBaseClass :: "classDeclaration \<Rightarrow> bool" where
  "hasBaseClass node = list_ex isExtendsClause (class_heritageClauses node)"

definition classTags :: "classDeclaration \<Rightarrow> string list" where
  "classTags node = (case class_name node of None \<Rightarrow> [] | Some n \<Rightarrow> [n])"

text \<open>
  Constructing an instance of the class \<open>node\<close> with the constructor \<open>member\<close>. Without a
  base class, a fresh, unfrozen object at reference \<open>a\<close>, holding the values \<open>init\<close> its
  field initialisers gave it, runs the constructor's body. With a base class \<open>this\<close> is not
  initialised until \<open>super()\<close> is called, which no modelled statement does: the body runs
  with \<open>this\<close> uninitialised, and returning from it so is a \<open>ReferenceError\<close>. A
  constructor whose parameter list does not parse is not run at all.
\<close>

definition construct ::
  "'n host \<Rightarrow> (string \<Rightarrow> 'n jsValue option) \<Rightarrow> 'n heap \<Rightarrow> nat \<Rightarrow> classDeclaration
     \<Rightarrow> (string \<Rightarrow> 'n jsValue) \<Rightarrow> classElement \<Rightarrow> 'n jsValue list \<Rightarrow> 'n completion" where
  "construct h scope heap a node init member args =
     (case member of
        ConstructorDeclaration ms params body \<Rightarrow>
          if \<not> parametersParse params then Unsupported
          else if hasBaseClass node
          then (case execStatements h None (memberEnvironment scope node params args) heap body of
                  Normal heap' \<Rightarrow> Throw ReferenceError
                | c \<Rightarrow> c)
          else execStatements h (Some (JObject a)) (memberEnvironment scope node params args)
                 (heap(a := \<lparr> instanceOfClasses = classTags node, fieldValues = init,
                              isFrozen = False \<rparr>))
                 body
      | _ \<Rightarrow> Unsupported)"

section \<open>Notions used to state the properties\<close>

text \<open>The handlers \<open>transformClass\<close> selects for a class, and the plan they leave.\<close>

definition handlersFor :: "classDeclaration \<Rightarrow> decoratorHandler list" where
  "handlersFor node = getHandlersForDecorators handlerRegistry (getKnownDecorators node)"

definition planFor :: "classDeclaration \<Rightarrow> transformationPlan" where
  "planFor node =
     planAfterHandlers (handlersFor node)
       (createPlan node (getClassProperties node) (getKnownDecorators node))"

text \<open>The constructor \<open>executeTransformation\<close> builds when it builds one.\<close>

definition generatedConstructor :: "transformationPlan \<Rightarrow> classElement" where
  "generatedConstructor plan =
     generateConstructorDecl plan (if freezeInstance plan then [generateFreezeStatement] else [])"

fun constructorParameters :: "classElement \<Rightarrow> parameterDeclaration list" where
  "constructorParameters (ConstructorDeclaration ms ps body) = ps"
| "constructorParameters member = []"






fun thrownError :: "'n completion \<Rightarrow> jsError option" where
  "thrownError (Throw e) = Some e"
| "thrownError c = None"

subsection \<open>A host whose numbers are the integers\<close>

text \<open>
  For concrete runs: integer arithmetic, \<open>x | y\<close> on the 32-bit two's complement values,
  and \<open>String\<close> as JavaScript prints integers.
\<close>

definition toInt32 :: "int \<Rightarrow> int" where
  "toInt32 x = (x + 2 ^ 31) mod 2 ^ 32 - 2 ^ 31"

fun decimalDigits :: "nat \<Rightarrow> string" where
  "decimalDigits n =
     (if n < 10 then [char_of (48 + n)]
      else decimalDigits (n div 10) @ [char_of (48 + n mod 10)])"

declare decimalDigits.simps [simp del]

definition intToString :: "int jsValue \<Rightarrow> string" where
  "intToString v =
     (case v of
        JUndefined \<Rightarrow> ''undefined''
      | JNull \<Rightarrow> ''null''
      | JBoolean b \<Rightarrow> (if b then ''true'' else ''false'')
      | JNumber n \<Rightarrow>
          (if n < 0 then CHR ''-'' # decimalDigits (nat (- n)) else decimalDigits (nat n))
      | JString s \<Rightarrow> s
      | JObject a \<Rightarrow> ''[object Object]''
      | JClass c \<Rightarrow> ''class '' @ c @ '' { }'')"

definition intHost :: "int host" where
  "intHost =
     \<lparr> numberLiteral = int,
       numberTimes = (*),
       numberPlus = (+),
       numberBitOr = (\<lambda>x y. or (toInt32 x) (toInt32 y)),
       numberStrictEquals = (=),
       numberToBoolean = (\<lambda>n. n \<noteq> 0),
       toStringOf = intToString \<rparr>"

definition noFields :: "string \<Rightarrow> int jsValue" where
  "noFields = (\<lambda>f. JUndefined)"

definition noBindings :: "string \<Rightarrow> int jsValue option" where
  "noBindings = Map.empty"

definition emptyHeap :: "int heap" where
  "emptyHeap = (\<lambda>a. \<lparr> instanceOfClasses = [], fieldValues = noFields, isFrozen = False \<rparr>)"

subsection \<open>Example classes\<close>

text \<open>\<open>@Record class User { id: number; constructor(id: number) { ... } }\<close>\<close>

definition handwrittenConstructor :: classElement where
  "handwrittenConstructor =
     ConstructorDeclaration [] [ParameterDeclaration ''id'' (Some (KeywordTypeNode NumberKeyword))]
       [OtherStatement 0 []]"

definition recordWithConstructor :: classDeclaration where
  "recordWithConstructor =
     ClassDeclaration [Decorator (Identifier ''Record'')] (Some ''User'') [] []
       [PropertyDeclaration [] (IdentifierName ''id'') False
          (Some (KeywordTypeNode NumberKeyword)) None,
        handwrittenConstructor]"

text \<open>\<open>class A { @Getter x; }\<close>\<close>

definition getterOnProperty :: classDeclaration where
  "getterOnProperty =
     ClassDeclaration [] (Some ''A'') [] []
       [PropertyDeclaration [Decorator (Identifier ''Getter'')] (IdentifierName ''x'') False
          None None]"

text \<open>\<open>export class User { id: number; }\<close>\<close>

definition plainClass :: classDeclaration where
  "plainClass =
     ClassDeclaration [Modifier ExportKeyword] (Some ''User'') [] []
       [PropertyDeclaration [] (IdentifierName ''id'') False
          (Some (KeywordTypeNode NumberKeyword)) None]"

text \<open>\<open>@AllArgsConstructor class Pair { @NonNull a: string; @NonNull b: string; }\<close>\<close>

definition pairClass :: classDeclaration where
  "pairClass =
     ClassDeclaration [Decorator (Identifier ''AllArgsConstructor'')] (Some ''Pair'') [] []
       [PropertyDeclaration [Decorator (Identifier ''NonNull'')] (IdentifierName ''a'') False
          (Some (KeywordTypeNode StringKeyword)) None,
        PropertyDeclaration [Decorator (Identifier ''NonNull'')] (IdentifierName ''b'') False
          (Some (KeywordTypeNode StringKeyword)) None]"






text \<open>\<open>class Counter { @Getter static count; }\<close>\<close>

definition getterOnStaticProperty :: classDeclaration where
  "getterOnStaticProperty =
     ClassDeclaration [] (Some ''Counter'') [] []
       [PropertyDeclaration [Decorator (Identifier ''Getter''), Modifier StaticKeyword]
          (IdentifierName ''count'') False None None]"

text \<open>\<open>@ToString class Outer { make() { @ToString class Inner {} } }\<close>\<close>

definition innerClass :: classDeclaration where
  "innerClass =
     ClassDeclaration [Decorator (Identifier ''ToString'')] (Some ''Inner'') [] [] []"

definition outerClass :: classDeclaration where
  "outerClass =
     ClassDeclaration [Decorator (Identifier ''ToString'')] (Some ''Outer'') [] []
       [MethodDeclaration [] (IdentifierName ''make'') [] None [ClassStatement innerClass]]"

text \<open>\<open>@Injectable class Account { @Setter() private balance: number; audit() { ... } }\<close>\<close>

definition setterOnProperty :: classDeclaration where
  "setterOnProperty =
     ClassDeclaration [Decorator (Identifier ''Injectable'')] (Some ''Account'') [] []
       [PropertyDeclaration
          [Decorator (CallExpression (Identifier ''Setter'') []), Modifier PrivateKeyword]
          (IdentifierName ''balance'') False (Some (KeywordTypeNode NumberKeyword)) None,
        MethodDeclaration [] (IdentifierName ''audit'') [] None [OtherStatement 0 []]]"

section \<open>The orchestrator, restated\<close>

lemma transformClass_planFor:
  "transformClass node =
     (if getKnownDecorators node = []
         \<and> \<not> list_ex (\<lambda>p. decorators p \<noteq> []) (getClassProperties node)
      then None
      else Some (executeTransformation (planFor node) (handlersFor node) node))"
  by (simp add: transformClass_def planFor_def handlersFor_def Let_def)

lemma handlerRegistry_eq:
  "handlerRegistry = map (\<lambda>h. (decoratorName h, h)) defaultHandlers"
  by (simp add: handlerRegistry_def registerDefaults_def defaultHandlers_def register_def
      RecordHandler_def ValueHandler_def EqualsHandler_def WithHandler_def GetterHandler_def
      SetterHandler_def ToStringHandler_def DataHandler_def BuilderHandler_def
      NoArgsConstructorHandler_def AllArgsConstructorHandler_def
      RequiredArgsConstructorHandler_def LogHandler_def SingletonHandler_def)

section \<open>Constructor parameters\<close>

text \<open>
  Claim C4. The parameter list of a generated constructor follows the constructor mode:
  none for mode \<open>none\<close>; one parameter per property, in declaration order, for mode
  \<open>all\<close>; for mode \<open>required\<close> exactly the properties with no initializer that are not
  optional, in declaration order.
\<close>

theorem constructor_parameters_by_mode:
  "constructorParameters (generateConstructorDecl (plan\<lparr>constructorType := CtorNone\<rparr>) extra)
     = []
   \<and> constructorParameters (generateConstructorDecl (plan\<lparr>constructorType := CtorAll\<rparr>) extra)
     = map (\<lambda>p. ParameterDeclaration (name p) (type p)) (properties plan)
   \<and> constructorParameters
       (generateConstructorDecl (plan\<lparr>constructorType := CtorRequired\<rparr>) extra)
     = map (\<lambda>p. ParameterDeclaration (name p) (type p))
         (filter (\<lambda>p. \<not> hasInitializer p \<and> \<not> isOptional p) (properties plan))"
  by (simp add: generateConstructorDecl_def getConstructorProperties_def
      createConstructorParameter_def Let_def conj_commute)

section \<open>Handler order\<close>

text \<open>
  Claim C9, as the code has it. The selected handlers run in order of non-increasing
  priority, and the handlers of one priority run in the order in which their markers
  appear on the class: for every priority \<open>k\<close>, the handlers of priority \<open>k\<close> are, in
  order, those looked up from the marker names.
\<close>

theorem handlers_by_priority_then_marker_order:
  "sorted_wrt (\<lambda>a b. priority a \<ge> priority b) (getHandlersForDecorators reg names)
   \<and> filter (\<lambda>h. priority h = k) (getHandlersForDecorators reg names)
       = filter (\<lambda>h. priority h = k) (List.map_filter (registryGet reg) names)"
proof
  let ?hs = "List.map_filter (registryGet reg) names"
  have "sorted (map (\<lambda>h. - priority h) (sort_key (\<lambda>h. - priority h) ?hs))"
    by (rule sorted_sort_key)
  then show "sorted_wrt (\<lambda>a b. priority a \<ge> priority b) (getHandlersForDecorators reg names)"
    by (simp add: getHandlersForDecorators_def sorted_map sorted_wrt_iff_nth_less)
next
  let ?hs = "List.map_filter (registryGet reg) names"
  have "filter (\<lambda>h. - priority h = - k) (sort_key (\<lambda>h. - priority h) ?hs)
          = filter (\<lambda>h. - priority h = - k) ?hs"
    by (rule sort_key_stable)
  then show "filter (\<lambda>h. priority h = k) (getHandlersForDecorators reg names)
       = filter (\<lambda>h. priority h = k) ?hs"
    by (simp add: getHandlersForDecorators_def)
qed

text \<open>
  Claim C9 as stated fails: on a class marked \<open>@Value @Record\<close> the two handlers have the
  same priority and run in marker order, Value first, although Record is registered
  before Value.
\<close>

theorem equal_priority_follows_marker_order:
  "getHandlersForDecorators handlerRegistry [''Value'', ''Record'']
     = [ValueHandler, RecordHandler]
   \<and> priority ValueHandler = priority RecordHandler
   \<and> take 2 (map fst handlerRegistry) = [''Record'', ''Value'']"
  by (simp add: handlerRegistry_eq defaultHandlers_def getHandlersForDecorators_def
      registryGet_def List.map_filter_simps RecordHandler_def ValueHandler_def)

section \<open>Hand-written constructors\<close>

text \<open>
  Claim C1 at \<open>@Record class User { id: number; constructor(id: number) { ... } }\<close>. The
  class has a hand-written constructor. The Record handler sets \<open>generateConstructor\<close>, so
  the loop over the members skips that constructor; the class has a constructor, so none
  is generated. The rewritten class has no constructor at all.
\<close>

theorem handwritten_constructor_dropped:
  "List.member (class_members recordWithConstructor) handwrittenConstructor
   \<and> transformClass recordWithConstructor =
     Some (ClassDeclaration [] (Some ''User'') [] []
       [PropertyDeclaration [Modifier ReadonlyKeyword] (IdentifierName ''id'') False
          (Some (KeywordTypeNode NumberKeyword)) None,
        MethodDeclaration [] (IdentifierName ''toString'') []
          (Some (KeywordTypeNode StringKeyword))
          [ReturnStatement
            (TemplateExpression ''User(id=''
              [(PropertyAccessExpression This ''id'', '')'')])]])"
  by code_simp

section \<open>Traversal\<close>

text \<open>
  Claim C8 at \<open>@ToString class Outer { make() { @ToString class Inner {} } }\<close>. Visited on
  its own, \<open>Inner\<close> is rewritten. Inside \<open>Outer\<close> it is never visited: the visitor returns
  the rewritten \<open>Outer\<close> without visiting its children, and \<open>Inner\<close> keeps its marker and
  gets no \<open>toString\<close>.
\<close>

theorem nested_class_of_rewritten_class_not_visited:
  "visitor (ClassStatement innerClass) =
     ClassStatement (ClassDeclaration [] (Some ''Inner'') [] []
       [MethodDeclaration [] (IdentifierName ''toString'') []
          (Some (KeywordTypeNode StringKeyword))
          [ReturnStatement (NoSubstitutionTemplateLiteral ''Inner()'')]])
   \<and> visitor (ClassStatement outerClass) =
     ClassStatement (ClassDeclaration [] (Some ''Outer'') [] []
       [MethodDeclaration [] (IdentifierName ''make'') [] None [ClassStatement innerClass],
        MethodDeclaration [] (IdentifierName ''toString'') []
          (Some (KeywordTypeNode StringKeyword))
          [ReturnStatement (NoSubstitutionTemplateLiteral ''Outer()'')]])"
  by code_simp

section \<open>Classes without markers\<close>

text \<open>
  Claim C2, as the code has it. A class with no recognized class-level marker, none of
  whose properties carries a decorator of any name, is not rewritten: \<open>transformClass\<close>
  returns nothing and the visitor keeps the class declaration, only visiting the children
  of its members.
\<close>

theorem unmarked_class_not_rewritten:
  assumes "getKnownDecorators node = []"
    and "list_all (\<lambda>p. decorators p = []) (getClassProperties node)"
  shows "transformClass node = None
    \<and> visitor (ClassStatement node) =
        ClassStatement
          (ClassDeclaration (class_modifiers node) (class_name node)
             (class_typeParameters node) (class_heritageClauses node)
             (map visitEachChildOfMember (class_members node)))"
proof -
  have none: "transformClass node = None"
    using assms by (simp add: transformClass_planFor list_all_iff list_ex_iff)
  then show ?thesis
    by (cases node) simp
qed

text \<open>The theorem at \<open>export class User { id: number; }\<close>, which the visitor returns as it is.\<close>

theorem unmarked_class_not_rewritten_witness:
  "getKnownDecorators plainClass = []
   \<and> list_all (\<lambda>p. decorators p = []) (getClassProperties plainClass)
   \<and> transformClass plainClass = None
   \<and> visitor (ClassStatement plainClass) = ClassStatement plainClass"
proof -
  have a: "getKnownDecorators plainClass = []" by code_simp
  have b: "list_all (\<lambda>p. decorators p = []) (getClassProperties plainClass)" by code_simp
  have c: "map visitEachChildOfMember (class_members plainClass) = class_members plainClass"
    by code_simp
  from unmarked_class_not_rewritten [OF a b] a b c show ?thesis
    by (simp add: plainClass_def)
qed

text \<open>
  Claim C2 as stated fails at \<open>class A { @Getter x; }\<close>: no class-level marker, no
  property marked \<open>@NonNull\<close>, and yet the class is rewritten, the \<open>@Getter\<close> decorator
  stripped from the property.
\<close>

theorem getter_on_property_rewrites_class:
  "getKnownDecorators getterOnProperty = []
   \<and> \<not> list_ex isNonNull (getClassProperties getterOnProperty)
   \<and> visitor (ClassStatement getterOnProperty) =
       ClassStatement (ClassDeclaration [] (Some ''A'') [] []
         [PropertyDeclaration [] (IdentifierName ''x'') False None None])
   \<and> visitor (ClassStatement getterOnProperty) \<noteq> ClassStatement getterOnProperty"
  by code_simp

section \<open>Getter and Setter on a property\<close>

lemma concat_transformMember_default:
  assumes "\<not> makeReadonly plan" and "\<not> generateConstructor plan"
  shows "concat (map (transformMember plan) ms) = map stripPropertyDecorators ms"
proof (induction ms)
  case Nil
  then show ?case by simp
next
  case (Cons m ms)
  have "transformMember plan m = [stripPropertyDecorators m]"
    using assms by (cases m) (simp_all add: transformMember_def)
  with Cons show ?case by simp
qed

lemma planFor_no_class_markers:
  assumes "getKnownDecorators node = []"
  shows "planFor node = createPlan node (getClassProperties node) []"
  using assms
  by (simp add: planFor_def handlersFor_def getHandlersForDecorators_def
      List.map_filter_simps planAfterHandlers_def)

text \<open>
  Claim C10, as the code has it. Let a class have no recognized class-level marker and a
  property that is not static and is named by an identifier, carrying a decorator named
  \<open>Getter\<close> or \<open>Setter\<close>. The
  decorator is a known property decorator; the class is rewritten, by no handler; the
  rewritten class has the original members, each property stripped of its known property
  decorators, this one among them, and no further member; and the plan has no generation
  flag set (null validation is set exactly when some property is marked \<open>@NonNull\<close>).
\<close>

theorem getter_setter_property_marker:
  assumes "getKnownDecorators node = []"
    and "PropertyDeclaration ms (IdentifierName n) q ty ini \<in> set (class_members node)"
    and "\<not> hasModifierKind StaticKeyword (getModifiersOf ms)"
    and "d \<in> set ms" and "getDecoratorName d = Some g" and "g = ''Getter'' \<or> g = ''Setter''"
  shows "isKnownPropertyDecorator d
    \<and> transformClass node = Some (executeTransformation (planFor node) [] node)
    \<and> class_modifiers (executeTransformation (planFor node) [] node)
        = removeKnownDecorators node
    \<and> class_members (executeTransformation (planFor node) [] node)
        = map stripPropertyDecorators (class_members node)
    \<and> stripPropertyDecorators (PropertyDeclaration ms (IdentifierName n) q ty ini)
        = PropertyDeclaration
            (filter (\<lambda>d. \<not> isKnownPropertyDecorator d) (getDecoratorsOf ms) @ getModifiersOf ms)
            (IdentifierName n) q ty ini
    \<and> \<not> generateConstructor (planFor node) \<and> \<not> freezeInstance (planFor node)
    \<and> \<not> makeReadonly (planFor node) \<and> \<not> generateToString (planFor node)
    \<and> \<not> generateEquals (planFor node) \<and> \<not> generateHashCode (planFor node)
    \<and> \<not> generateWithMethods (planFor node) \<and> \<not> generateGetters (planFor node)
    \<and> \<not> generateSetters (planFor node) \<and> \<not> generateBuilder (planFor node)
    \<and> \<not> generateLog (planFor node) \<and> \<not> generateSingleton (planFor node)
    \<and> validateNonNull (planFor node) = list_ex isNonNull (getClassProperties node)"
proof -
  let ?member = "PropertyDeclaration ms (IdentifierName n) q ty ini"
  have known: "isKnownPropertyDecorator d"
    using assms(5,6) by (auto simp: isKnownPropertyDecorator_def KNOWN_PROPERTY_DECORATORS_def)
  have dec: "isDecorator d"
    using assms(5) by (cases d) simp_all
  then have din: "d \<in> set (getDecoratorsOf ms)"
    using assms(4) by (simp add: getDecoratorsOf_def)
  then have "g \<in> set (decoratorNames (getDecoratorsOf ms))"
    using assms(5) by (force simp: decoratorNames_def List.map_filter_def)
  then have "\<exists>p \<in> set (getClassProperties_member ?member). decorators p \<noteq> []"
    using assms(3) by (auto simp: Let_def)
  then obtain p where p: "p \<in> set (getClassProperties_member ?member)" "decorators p \<noteq> []"
    by blast
  have "p \<in> set (getClassProperties node)"
    unfolding getClassProperties_def set_concat set_map using p(1) assms(2) by blast
  with p(2) have trig: "list_ex (\<lambda>p. decorators p \<noteq> []) (getClassProperties node)"
    unfolding list_ex_iff by blast
  have plan: "planFor node = createPlan node (getClassProperties node) []"
    by (rule planFor_no_class_markers [OF assms(1)])
  have handlers: "handlersFor node = []"
    using assms(1)
    by (simp add: handlersFor_def getHandlersForDecorators_def List.map_filter_simps)
  have tc: "transformClass node = Some (executeTransformation (planFor node) [] node)"
    using trig handlers by (simp add: transformClass_planFor)
  have flags: "\<not> makeReadonly (planFor node)" "\<not> generateConstructor (planFor node)"
    by (simp_all add: plan createPlan_def createDefaultPlan_def)
  have members: "class_members (executeTransformation (planFor node) [] node)
        = map stripPropertyDecorators (class_members node)"
    using flags by (simp add: executeTransformation_def Let_def concat_transformMember_default)
  have "length (filter (\<lambda>d. case getDecoratorName d of None \<Rightarrow> True
                 | Some dn \<Rightarrow> \<not> List.member KNOWN_PROPERTY_DECORATORS dn) (getDecoratorsOf ms))
        < length (getDecoratorsOf ms)"
    using din known
    by (intro length_filter_less [of d]) (auto simp: isKnownPropertyDecorator_def assms(5))
  moreover have "(\<lambda>d. case getDecoratorName d of None \<Rightarrow> True
                 | Some dn \<Rightarrow> \<not> List.member KNOWN_PROPERTY_DECORATORS dn)
       = (\<lambda>d. \<not> isKnownPropertyDecorator d)"
    by (auto simp: fun_eq_iff isKnownPropertyDecorator_def split: option.splits)
  ultimately have strip: "stripPropertyDecorators ?member
        = PropertyDeclaration
            (filter (\<lambda>d. \<not> isKnownPropertyDecorator d) (getDecoratorsOf ms) @ getModifiersOf ms)
            (IdentifierName n) q ty ini"
    by (simp add: Let_def)
  show ?thesis
    using known tc members strip
    by (simp add: plan createPlan_def createDefaultPlan_def executeTransformation_def Let_def)
qed

text \<open>
  The theorem at \<open>@Injectable class Account { @Setter() private balance: number; audit() { ... } }\<close>.
\<close>

theorem getter_setter_property_marker_witness:
  "getKnownDecorators setterOnProperty = []
   \<and> PropertyDeclaration
        [Decorator (CallExpression (Identifier ''Setter'') []), Modifier PrivateKeyword]
        (IdentifierName ''balance'') False (Some (KeywordTypeNode NumberKeyword)) None
       \<in> set (class_members setterOnProperty)
   \<and> \<not> hasModifierKind StaticKeyword
         (getModifiersOf
            [Decorator (CallExpression (Identifier ''Setter'') []), Modifier PrivateKeyword])
   \<and> getDecoratorName (Decorator (CallExpression (Identifier ''Setter'') [])) = Some ''Setter''
   \<and> transformClass setterOnProperty =
       Some (ClassDeclaration [Decorator (Identifier ''Injectable'')] (Some ''Account'') [] []
         [PropertyDeclaration [Modifier PrivateKeyword]
            (IdentifierName ''balance'') False (Some (KeywordTypeNode NumberKeyword)) None,
          MethodDeclaration [] (IdentifierName ''audit'') [] None [OtherStatement 0 []]])
   \<and> \<not> generateSetters (planFor setterOnProperty)"
proof -
  have a: "getKnownDecorators setterOnProperty = []" by code_simp
  have b: "PropertyDeclaration
        [Decorator (CallExpression (Identifier ''Setter'') []), Modifier PrivateKeyword]
        (IdentifierName ''balance'') False (Some (KeywordTypeNode NumberKeyword)) None
       \<in> set (class_members setterOnProperty)"
    by (simp add: setterOnProperty_def)
  have c: "\<not> hasModifierKind StaticKeyword
         (getModifiersOf
            [Decorator (CallExpression (Identifier ''Setter'') []), Modifier PrivateKeyword])"
    by code_simp
  have d: "Decorator (CallExpression (Identifier ''Setter'') [])
       \<in> set [Decorator (CallExpression (Identifier ''Setter'') []), Modifier PrivateKeyword]"
    by simp
  have e: "getDecoratorName (Decorator (CallExpression (Identifier ''Setter'') [])) = Some ''Setter''"
    by simp
  have out: "executeTransformation (planFor setterOnProperty) [] setterOnProperty =
       ClassDeclaration [Decorator (Identifier ''Injectable'')] (Some ''Account'') [] []
         [PropertyDeclaration [Modifier PrivateKeyword]
            (IdentifierName ''balance'') False (Some (KeywordTypeNode NumberKeyword)) None,
          MethodDeclaration [] (IdentifierName ''audit'') [] None [OtherStatement 0 []]]"
    by code_simp
  from getter_setter_property_marker [OF a b c d e] a b c e out show ?thesis
    by simp
qed

text \<open>
  Claim C10 as stated fails at \<open>class Counter { @Getter static count; }\<close>: the property
  carries a decorator named \<open>Getter\<close> and the class has no class-level marker, but static
  properties are skipped when the properties are read, so the class is not rewritten and
  the decorator stays.
\<close>

theorem getter_on_static_property_not_rewritten:
  "getKnownDecorators getterOnStaticProperty = []
   \<and> getDecoratorName (Decorator (Identifier ''Getter'')) = Some ''Getter''
   \<and> List.member (class_members getterOnStaticProperty)
        (PropertyDeclaration [Decorator (Identifier ''Getter''), Modifier StaticKeyword]
           (IdentifierName ''count'') False None None)
   \<and> transformClass getterOnStaticProperty = None
   \<and> visitor (ClassStatement getterOnStaticProperty) = ClassStatement getterOnStaticProperty"
  by code_simp

section \<open>Generated members and hand-written members\<close>





section \<open>The generated constructor\<close>

subsection \<open>The plan's null-validation flag\<close>

lemma modifyPlan_preserves:
  "hdl \<in> set defaultHandlers \<Longrightarrow>
   validateNonNull (modifyPlan hdl plan) = validateNonNull plan
   \<and> properties (modifyPlan hdl plan) = properties plan"
  by (auto simp: defaultHandlers_def RecordHandler_def ValueHandler_def EqualsHandler_def
      WithHandler_def GetterHandler_def SetterHandler_def ToStringHandler_def DataHandler_def
      BuilderHandler_def NoArgsConstructorHandler_def AllArgsConstructorHandler_def
      RequiredArgsConstructorHandler_def LogHandler_def SingletonHandler_def
      recordModifyPlan_def)

lemma planAfterHandlers_preserves:
  "set hs \<subseteq> set defaultHandlers \<Longrightarrow>
   validateNonNull (planAfterHandlers hs plan) = validateNonNull plan
   \<and> properties (planAfterHandlers hs plan) = properties plan"
  unfolding planAfterHandlers_def
  by (induction hs arbitrary: plan) (simp_all add: modifyPlan_preserves)

lemma set_sort_key_handlers:
  "set (getHandlersForDecorators handlerRegistry names) \<subseteq> set defaultHandlers"
proof -
  have "registryGet handlerRegistry n = Some hdl \<Longrightarrow> hdl \<in> set defaultHandlers" for n hdl
    unfolding registryGet_def handlerRegistry_eq
    by (auto dest!: map_of_SomeD)
  then show ?thesis
    by (auto simp: getHandlersForDecorators_def List.map_filter_def)
qed

lemma planFor_validateNonNull:
  "validateNonNull (planFor node) = list_ex isNonNull (properties (planFor node))"
  by (simp add: planFor_def handlersFor_def planAfterHandlers_preserves set_sort_key_handlers
      createPlan_def createDefaultPlan_def)

subsection \<open>Running the three parts of the body\<close>

lemma execStatements_validations:
  assumes "\<forall>q\<in>set qs. env (name q) \<noteq> None" and "env ''Error'' = None"
  shows "execStatements h t env heap
           (map (\<lambda>p. generateNonNullValidation (name p)) qs @ rest) =
         (case List.find (\<lambda>q. isNullish (the (env (name q)))) qs of
            Some q \<Rightarrow> Throw (Error (name q @ '' cannot be null or undefined''))
          | None \<Rightarrow> execStatements h t env heap rest)"
  using assms(1)
proof (induction qs)
  case Nil
  then show ?case by simp
next
  case (Cons q qs)
  then obtain v where v: "env (name q) = Some v" by auto
  have step: "execStatement h t env heap (generateNonNullValidation (name q)) =
          (if isNullish v then Throw (Error (name q @ '' cannot be null or undefined''))
           else Normal heap)"
    by (simp add: generateNonNullValidation_def v binaryValue_def looseEquals_def
        isNullish_def toBoolean_def execThrow_def assms(2))
  show ?case
    using Cons by (simp add: step v)
qed

lemma execStatements_assignments:
  assumes "\<forall>q\<in>set qs. env (name q) \<noteq> None" and "\<not> isFrozen (heap a)"
  shows "execStatements h (Some (JObject a)) env heap
           (map (\<lambda>p. createPropertyAssignment (name p)) qs @ rest) =
         execStatements h (Some (JObject a)) env
           (heap(a := (heap a)\<lparr>fieldValues :=
                   (\<lambda>f. if f \<in> name ` set qs then the (env f) else fieldValues (heap a) f)\<rparr>))
           rest"
  using assms
proof (induction qs arbitrary: heap)
  case Nil
  then show ?case by simp
next
  case (Cons q qs)
  then obtain v where v: "env (name q) = Some v" by auto
  let ?heap' = "heap(a := (heap a)\<lparr>fieldValues := (fieldValues (heap a))(name q := v)\<rparr>)"
  have step: "execStatement h (Some (JObject a)) env heap (createPropertyAssignment (name q)) =
          Normal ?heap'"
    using Cons.prems(2)
    by (simp add: createPropertyAssignment_def execExpressionStatement_def v)
  have heq: "?heap'(a := (?heap' a)\<lparr>fieldValues :=
                   (\<lambda>f. if f \<in> name ` set qs then the (env f) else fieldValues (?heap' a) f)\<rparr>)
        = heap(a := (heap a)\<lparr>fieldValues :=
                   (\<lambda>f. if f \<in> name ` set (q # qs) then the (env f)
                        else fieldValues (heap a) f)\<rparr>)"
    by (auto simp: fun_eq_iff v)
  have "execStatements h (Some (JObject a)) env heap
           (map (\<lambda>p. createPropertyAssignment (name p)) (q # qs) @ rest) =
        execStatements h (Some (JObject a)) env ?heap'
           (map (\<lambda>p. createPropertyAssignment (name p)) qs @ rest)"
    by (simp add: step)
  also have "\<dots> = execStatements h (Some (JObject a)) env
           (?heap'(a := (?heap' a)\<lparr>fieldValues :=
                   (\<lambda>f. if f \<in> name ` set qs then the (env f) else fieldValues (?heap' a) f)\<rparr>))
           rest"
    using Cons.prems by (intro Cons.IH) simp_all
  finally show ?case
    by (simp only: heq)
qed

lemma execStatements_freeze:
  "env ''Object'' = None \<Longrightarrow>
   execStatements h (Some (JObject a)) env heap [generateFreezeStatement] =
     Normal (heap(a := (heap a)\<lparr>isFrozen := True\<rparr>))"
  by (simp add: generateFreezeStatement_def createFreezeStatement_def
      execExpressionStatement_def)

lemma map_of_rev_distinct:
  "distinct (map fst xs) \<Longrightarrow> map_of (rev xs) = map_of xs"
  by (subst map_of_inject_set) (simp_all add: rev_map [symmetric])

lemma bindParameters_distinct:
  assumes "distinct (map name ps)"
  shows "bindParameters (map (\<lambda>p. ParameterDeclaration (name p) (type p)) ps) args =
           map_of (zip (map name ps) (map (argumentAt args) [0..<length ps]))"
  using assms by (simp add: bindParameters_def comp_def map_of_rev_distinct)

lemma bindParameters_nth:
  assumes "distinct (map name ps)" and "i < length ps"
  shows "bindParameters (map (\<lambda>p. ParameterDeclaration (name p) (type p)) ps) args
           (name (ps ! i)) = Some (argumentAt args i)"
  using map_of_zip_nth [of "map name ps" "map (argumentAt args) [0..<length ps]" i] assms
  by (simp add: bindParameters_distinct)

lemma find_by_index:
  "List.find P xs = map_option ((!) xs) (List.find (\<lambda>i. P (xs ! i)) [0..<length xs])"
proof (cases "List.find (\<lambda>i. P (xs ! i)) [0..<length xs]")
  case None
  then have "\<forall>i<length xs. \<not> P (xs ! i)"
    by (auto simp: find_None_iff)
  then have "List.find P xs = None"
    by (auto simp: find_None_iff in_set_conv_nth)
  with None show ?thesis by simp
next
  case (Some i)
  then have "i < length xs \<and> P (xs ! i) \<and> (\<forall>j<i. \<not> P (xs ! j))"
    by (auto simp: find_Some_iff)
  then have "List.find P xs = Some (xs ! i)"
    by (auto simp: find_Some_iff)
  with Some show ?thesis by simp
qed

lemma generatedConstructor_planFor:
  "generatedConstructor (planFor node) =
     ConstructorDeclaration []
       (map (\<lambda>p. ParameterDeclaration (name p) (type p))
          (getConstructorProperties (planFor node)))
       (map (\<lambda>p. generateNonNullValidation (name p))
          (filter isNonNull (getConstructorProperties (planFor node)))
        @ map (\<lambda>p. createPropertyAssignment (name p)) (getConstructorProperties (planFor node))
        @ (if freezeInstance (planFor node) then [generateFreezeStatement] else []))"
proof -
  have sub: "set (getConstructorProperties (planFor node)) \<subseteq> set (properties (planFor node))"
    by (auto simp: getConstructorProperties_def split: constructorType.splits)
  have "\<not> validateNonNull (planFor node) \<Longrightarrow>
        filter isNonNull (getConstructorProperties (planFor node)) = []"
    using sub by (auto simp: planFor_validateNonNull list_ex_iff filter_empty_conv)
  then show ?thesis
    by (auto simp: generatedConstructor_def generateConstructorDecl_def Let_def
        createConstructorParameter_def)
qed

lemma memberEnvironment_nth:
  assumes "distinct (map name ps)" and "i < length ps"
  shows "memberEnvironment scope node (map (\<lambda>p. ParameterDeclaration (name p) (type p)) ps) args
           (name (ps ! i)) = Some (argumentAt args i)"
  unfolding memberEnvironment_def
  by (rule map_add_find_right) (rule bindParameters_nth [OF assms])

text \<open>
  Claim C3, as the code has it. Take a class without a base class whose constructor
  properties have distinct names, none of them a reserved word, and let \<open>Error\<close> and
  \<open>Object\<close> be the globals where the constructor runs (no parameter, class or enclosing
  binding of those names). The generated
  constructor has one parameter per constructor property, and its body is, in this order:
  one null check per property marked \<open>@NonNull\<close>, one assignment \<open>this.f = f\<close> per
  parameter, and the freeze call if the plan freezes instances. Run on a fresh object, it
  throws if and only if the argument of some marked parameter is \<open>null\<close> or \<open>undefined\<close>;
  the error is an \<open>Error\<close> whose message is \<open>f cannot be null or undefined\<close> for the first
  such parameter \<open>f\<close>. Otherwise it ends normally, each parameter's field holding its
  argument unchanged, every other field its initial value, and the object frozen exactly
  when the plan says so.
\<close>

theorem generated_constructor_null_validation:
  assumes "distinct (map name (getConstructorProperties (planFor node)))"
    and "list_all (\<lambda>p. \<not> List.member reservedWords (name p))
           (getConstructorProperties (planFor node))"
    and "\<not> hasBaseClass node"
    and "memberEnvironment scope node
           (constructorParameters (generatedConstructor (planFor node))) args ''Error'' = None"
    and "memberEnvironment scope node
           (constructorParameters (generatedConstructor (planFor node))) args ''Object'' = None"
  shows "generatedConstructor (planFor node) =
     ConstructorDeclaration []
       (map (\<lambda>p. ParameterDeclaration (name p) (type p))
          (getConstructorProperties (planFor node)))
       (map (\<lambda>p. generateNonNullValidation (name p))
          (filter isNonNull (getConstructorProperties (planFor node)))
        @ map (\<lambda>p. createPropertyAssignment (name p)) (getConstructorProperties (planFor node))
        @ (if freezeInstance (planFor node) then [generateFreezeStatement] else []))
   \<and> construct h scope heap a node init (generatedConstructor (planFor node)) args =
     (case List.find
             (\<lambda>i. isNonNull (getConstructorProperties (planFor node) ! i)
                  \<and> isNullish (argumentAt args i))
             [0..<length (getConstructorProperties (planFor node))] of
        Some i \<Rightarrow>
          Throw (Error (name (getConstructorProperties (planFor node) ! i)
                          @ '' cannot be null or undefined''))
      | None \<Rightarrow>
          Normal (heap(a :=
            \<lparr> instanceOfClasses = classTags node,
              fieldValues =
                (\<lambda>f. case List.find
                             (\<lambda>i. name (getConstructorProperties (planFor node) ! i) = f)
                             [0..<length (getConstructorProperties (planFor node))] of
                        Some i \<Rightarrow> argumentAt args i
                      | None \<Rightarrow> init f),
              isFrozen = freezeInstance (planFor node) \<rparr>)))"
proof
  show "generatedConstructor (planFor node) =
     ConstructorDeclaration []
       (map (\<lambda>p. ParameterDeclaration (name p) (type p))
          (getConstructorProperties (planFor node)))
       (map (\<lambda>p. generateNonNullValidation (name p))
          (filter isNonNull (getConstructorProperties (planFor node)))
        @ map (\<lambda>p. createPropertyAssignment (name p)) (getConstructorProperties (planFor node))
        @ (if freezeInstance (planFor node) then [generateFreezeStatement] else []))"
    by (rule generatedConstructor_planFor)
next
  define ps where "ps = getConstructorProperties (planFor node)"
  define env where
    "env = memberEnvironment scope node
             (map (\<lambda>p. ParameterDeclaration (name p) (type p)) ps) args"
  define heap0 where
    "heap0 = heap(a := \<lparr> instanceOfClasses = classTags node, fieldValues = init,
                          isFrozen = False \<rparr>)"
  define frz where "frz = freezeInstance (planFor node)"
  have dist: "distinct (map name ps)"
    using assms(1) by (simp add: ps_def)
  have params: "constructorParameters (generatedConstructor (planFor node)) =
      map (\<lambda>p. ParameterDeclaration (name p) (type p)) ps"
    by (simp add: generatedConstructor_planFor ps_def)
  have noError: "env ''Error'' = None" and noObject: "env ''Object'' = None"
    using assms(4,5) by (simp_all add: params env_def)
  have parse: "parametersParse (map (\<lambda>p. ParameterDeclaration (name p) (type p)) ps)"
    using assms(1,2) by (simp add: parametersParse_def ps_def comp_def list_all_iff)
  have env_nth: "env (name (ps ! i)) = Some (argumentAt args i)" if "i < length ps" for i
    unfolding env_def by (rule memberEnvironment_nth [OF dist that])
  have env_def': "\<forall>q\<in>set ps. env (name q) \<noteq> None"
    using env_nth by (auto simp: in_set_conv_nth)
  then have env_def'': "\<forall>q\<in>set (filter isNonNull ps). env (name q) \<noteq> None"
    by simp
  have nf: "\<not> isFrozen (heap0 a)"
    by (simp add: heap0_def)
  define heap1 where
    "heap1 = heap0(a := (heap0 a)\<lparr>fieldValues :=
               (\<lambda>f. if f \<in> name ` set ps then the (env f) else fieldValues (heap0 a) f)\<rparr>)"
  define final where
    "final = heap(a :=
            \<lparr> instanceOfClasses = classTags node,
              fieldValues = (\<lambda>f. if f \<in> name ` set ps then the (env f) else init f),
              isFrozen = frz \<rparr>)"
  define F where "F = (if frz then [generateFreezeStatement] else [])"
  have step1: "execStatements h (Some (JObject a)) env heap0
      (map (\<lambda>p. generateNonNullValidation (name p)) (filter isNonNull ps)
       @ (map (\<lambda>p. createPropertyAssignment (name p)) ps @ F)) =
    (case List.find (\<lambda>q. isNullish (the (env (name q)))) (filter isNonNull ps) of
       Some q \<Rightarrow> Throw (Error (name q @ '' cannot be null or undefined''))
     | None \<Rightarrow>
         execStatements h (Some (JObject a)) env heap0
           (map (\<lambda>p. createPropertyAssignment (name p)) ps @ F))"
    by (rule execStatements_validations [OF env_def'' noError])
  have step2: "execStatements h (Some (JObject a)) env heap0
           (map (\<lambda>p. createPropertyAssignment (name p)) ps @ F) =
         execStatements h (Some (JObject a)) env heap1 F"
    unfolding heap1_def
    by (rule execStatements_assignments [where heap = heap0, OF env_def' nf])
  have step3: "execStatements h (Some (JObject a)) env heap1 F = Normal final"
  proof (cases frz)
    case True
    have "heap1(a := (heap1 a)\<lparr>isFrozen := True\<rparr>) = final"
      by (simp add: heap1_def heap0_def final_def True fun_eq_iff)
    with True show ?thesis
      by (simp only: F_def if_True execStatements_freeze [where env = env, OF noObject])
  next
    case False
    have "heap1 = final"
      by (simp add: heap1_def heap0_def final_def False fun_eq_iff)
    with False show ?thesis
      by (simp add: F_def)
  qed
  have run: "construct h scope heap a node init (generatedConstructor (planFor node)) args =
    (case List.find (\<lambda>q. isNullish (the (env (name q)))) (filter isNonNull ps) of
       Some q \<Rightarrow> Throw (Error (name q @ '' cannot be null or undefined''))
     | None \<Rightarrow> Normal final)"
    unfolding generatedConstructor_planFor construct_def classElement.case
      ps_def [symmetric] env_def [symmetric] heap0_def [symmetric] frz_def [symmetric]
      F_def [symmetric] step1 step2 step3
    using assms(3) parse by simp
  have find1: "List.find (\<lambda>q. isNullish (the (env (name q)))) (filter isNonNull ps) =
      map_option ((!) ps)
        (List.find (\<lambda>i. isNonNull (ps ! i) \<and> isNullish (argumentAt args i)) [0..<length ps])"
  proof -
    have "List.find (\<lambda>q. isNullish (the (env (name q)))) (filter isNonNull ps) =
          List.find (\<lambda>q. isNonNull q \<and> isNullish (the (env (name q)))) ps"
      by (induction ps) simp_all
    also have "\<dots> = map_option ((!) ps)
        (List.find (\<lambda>i. isNonNull (ps ! i) \<and> isNullish (the (env (name (ps ! i)))))
           [0..<length ps])"
      by (rule find_by_index)
    also have "List.find (\<lambda>i. isNonNull (ps ! i) \<and> isNullish (the (env (name (ps ! i)))))
           [0..<length ps] =
         List.find (\<lambda>i. isNonNull (ps ! i) \<and> isNullish (argumentAt args i)) [0..<length ps]"
      by (rule find_cong) (simp_all add: env_nth)
    finally show ?thesis .
  qed
  have fields: "(if f \<in> name ` set ps then the (env f) else init f) =
      (case List.find (\<lambda>i. name (ps ! i) = f) [0..<length ps] of
         Some i \<Rightarrow> argumentAt args i
       | None \<Rightarrow> init f)" for f
  proof (cases "List.find (\<lambda>i. name (ps ! i) = f) [0..<length ps]")
    case None
    then have "f \<notin> name ` set ps"
      by (auto simp: find_None_iff in_set_conv_nth)
    with None show ?thesis by simp
  next
    case (Some i)
    then have "i < length ps \<and> name (ps ! i) = f"
      by (auto simp: find_Some_iff)
    with Some env_nth [of i] show ?thesis by auto
  qed
  show "construct h scope heap a node init (generatedConstructor (planFor node)) args =
     (case List.find
             (\<lambda>i. isNonNull (getConstructorProperties (planFor node) ! i)
                  \<and> isNullish (argumentAt args i))
             [0..<length (getConstructorProperties (planFor node))] of
        Some i \<Rightarrow>
          Throw (Error (name (getConstructorProperties (planFor node) ! i)
                          @ '' cannot be null or undefined''))
      | None \<Rightarrow>
          Normal (heap(a :=
            \<lparr> instanceOfClasses = classTags node,
              fieldValues =
                (\<lambda>f. case List.find
                             (\<lambda>i. name (getConstructorProperties (planFor node) ! i) = f)
                             [0..<length (getConstructorProperties (planFor node))] of
                        Some i \<Rightarrow> argumentAt args i
                      | None \<Rightarrow> init f),
              isFrozen = freezeInstance (planFor node) \<rparr>)))"
    unfolding run find1 final_def fields ps_def [symmetric] frz_def [symmetric]
    by (simp split: option.splits)
qed

text \<open>
  The theorem at \<open>Pair\<close>: \<open>new Pair('x', undefined)\<close> throws for \<open>b\<close>, and
  \<open>new Pair('x', 'y')\<close> assigns both fields.
\<close>

theorem generated_constructor_null_validation_witness:
  "distinct (map name (getConstructorProperties (planFor pairClass)))
   \<and> list_all (\<lambda>p. \<not> List.member reservedWords (name p))
         (getConstructorProperties (planFor pairClass))
   \<and> \<not> hasBaseClass pairClass
   \<and> memberEnvironment noBindings pairClass
        (constructorParameters (generatedConstructor (planFor pairClass)))
        [JString ''x'', JString ''y''] ''Error'' = None
   \<and> memberEnvironment noBindings pairClass
        (constructorParameters (generatedConstructor (planFor pairClass)))
        [JString ''x'', JString ''y''] ''Object'' = None
   \<and> construct intHost noBindings emptyHeap 0 pairClass noFields
        (generatedConstructor (planFor pairClass)) [JString ''x'', JUndefined]
      = Throw (Error ''b cannot be null or undefined'')
   \<and> construct intHost noBindings emptyHeap 0 pairClass noFields
        (generatedConstructor (planFor pairClass)) [JString ''x'', JString ''y'']
      = Normal (emptyHeap(0 :=
          \<lparr> instanceOfClasses = [''Pair''],
            fieldValues = noFields(''a'' := JString ''x'', ''b'' := JString ''y''),
            isFrozen = False \<rparr>))"
proof -
  let ?ps = "getConstructorProperties (planFor pairClass)"
  let ?params = "constructorParameters (generatedConstructor (planFor pairClass))"
  have d: "distinct (map name ?ps)"
    by code_simp
  have rw: "list_all (\<lambda>p. \<not> List.member reservedWords (name p)) ?ps"
    by code_simp
  have nb: "\<not> hasBaseClass pairClass"
    by code_simp
  have e1: "memberEnvironment noBindings pairClass ?params
              [JString ''x'', JUndefined] ''Error'' = None"
    by code_simp
  have o1: "memberEnvironment noBindings pairClass ?params
              [JString ''x'', JUndefined] ''Object'' = None"
    by code_simp
  have e2: "memberEnvironment noBindings pairClass ?params
              [JString ''x'', JString ''y''] ''Error'' = None"
    by code_simp
  have o2: "memberEnvironment noBindings pairClass ?params
              [JString ''x'', JString ''y''] ''Object'' = None"
    by code_simp
  have frz: "freezeInstance (planFor pairClass) = False"
    by code_simp
  have tags: "classTags pairClass = [''Pair'']"
    by code_simp
  have f1: "List.find (\<lambda>i. isNonNull (?ps ! i)
                \<and> isNullish (argumentAt [JString ''x'', JUndefined :: int jsValue] i))
              [0..<length ?ps] = Some (Suc 0)"
    by code_simp
  have n1: "name (?ps ! Suc 0) = ''b''"
    by code_simp
  have f2: "List.find (\<lambda>i. isNonNull (?ps ! i)
                \<and> isNullish (argumentAt [JString ''x'', JString ''y'' :: int jsValue] i))
              [0..<length ?ps] = None"
    by code_simp
  have fa: "List.find (\<lambda>i. name (?ps ! i) = ''a'') [0..<length ?ps] = Some 0"
    by code_simp
  have fb: "List.find (\<lambda>i. name (?ps ! i) = ''b'') [0..<length ?ps] = Some (Suc 0)"
    by code_simp
  have fo: "List.find (\<lambda>i. name (?ps ! i) = f) [0..<length ?ps] = None"
    if "f \<noteq> ''a''" "f \<noteq> ''b''" for f
  proof -
    have "map name ?ps = [''a'', ''b'']" by code_simp
    then have "name ` set ?ps = {''a'', ''b''}"
      by (metis list.set_map list.simps(15) empty_set)
    with that have "f \<notin> name ` set ?ps" by simp
    then show ?thesis
      by (auto simp: find_None_iff)
  qed
  have fields: "(\<lambda>f. case List.find (\<lambda>i. name (?ps ! i) = f) [0..<length ?ps] of
                        Some i \<Rightarrow> argumentAt [JString ''x'', JString ''y'' :: int jsValue] i
                      | None \<Rightarrow> noFields f)
        = noFields(''a'' := JString ''x'', ''b'' := JString ''y'')"
  proof
    fix f
    show "(case List.find (\<lambda>i. name (?ps ! i) = f) [0..<length ?ps] of
              Some i \<Rightarrow> argumentAt [JString ''x'', JString ''y'' :: int jsValue] i
            | None \<Rightarrow> noFields f)
        = (noFields(''a'' := JString ''x'', ''b'' := JString ''y'')) f"
      using fa fb fo [of f]
      by (cases "f = ''a''"; cases "f = ''b''") (simp_all add: argumentAt_def)
  qed
  from generated_constructor_null_validation [where node = pairClass and h = intHost
      and scope = noBindings and heap = emptyHeap and a = 0 and init = noFields
      and args = "[JString ''x'', JUndefined]", OF d rw nb e1 o1, THEN conjunct2]
  have r1: "construct intHost noBindings emptyHeap 0 pairClass noFields
        (generatedConstructor (planFor pairClass)) [JString ''x'', JUndefined]
      = Throw (Error ''b cannot be null or undefined'')"
    by (simp add: f1 n1)
  from generated_constructor_null_validation [where node = pairClass and h = intHost
      and scope = noBindings and heap = emptyHeap and a = 0 and init = noFields
      and args = "[JString ''x'', JString ''y'']", OF d rw nb e2 o2, THEN conjunct2]
  have r2: "construct intHost noBindings emptyHeap 0 pairClass noFields
        (generatedConstructor (planFor pairClass)) [JString ''x'', JString ''y'']
      = Normal (emptyHeap(0 :=
          \<lparr> instanceOfClasses = [''Pair''],
            fieldValues = noFields(''a'' := JString ''x'', ''b'' := JString ''y''),
            isFrozen = False \<rparr>))"
    by (simp only: f2 fields frz tags option.case)
  from d rw nb e2 o2 r1 r2 show ?thesis by blast
qed

text \<open>
  Claim C3 as stated fails at \<open>new Pair(null, null)\<close>: the second parameter is marked and
  its argument is \<open>null\<close>, but the error thrown names \<open>a\<close>, not \<open>b\<close>.
\<close>

theorem second_null_argument_reports_first_field:
  "isNonNull (getConstructorProperties (planFor pairClass) ! 1)
   \<and> isNullish (argumentAt [JNull, JNull :: int jsValue] 1)
   \<and> thrownError (construct intHost noBindings emptyHeap 0 pairClass noFields
        (generatedConstructor (planFor pairClass)) [JNull, JNull])
      = Some (Error ''a cannot be null or undefined'')
   \<and> thrownError (construct intHost noBindings emptyHeap 0 pairClass noFields
        (generatedConstructor (planFor pairClass)) [JNull, JNull])
      \<noteq> Some (Error (name (getConstructorProperties (planFor pairClass) ! 1)
                        @ '' cannot be null or undefined''))"
  by code_simp

section \<open>The generated equals\<close>







section \<open>The generated hashCode\<close>






end
